theory Spec2Isabelle
  imports Main "HOL-Library.Multiset"
begin

section \<open>Errors and results\<close>

text \<open>
  Go error values.  \<open>ErrorString\<close> is the result of \<open>errors.New\<close>, \<open>fmt.Errorf\<close> or an
  opaque library error, \<open>Wrap e msg\<close> is \<open>errors.Wrap(e, msg)\<close>, \<open>ExitError n\<close> is an
  \<open>*ssh.ExitError\<close> whose \<open>ExitStatus()\<close> is \<open>n\<close>, \<open>MultiError\<close> is the value built by
  \<open>multierror.Append\<close>.  \<open>ErrTask\<close> carries the \<open>Run\<close> string of the task it points to.
  A function that returns only an \<open>error\<close> is modelled with \<open>error option\<close> (\<open>None\<close> is
  \<open>nil\<close>).  A run-time panic (nil dereference, index out of range) is the third
  constructor of \<open>result\<close>.
\<close>

datatype error =
    ErrorString string
  | Wrap error string
  | ErrConnect string string string
  | ErrTask string string
  | ExitError int
  | MultiError "error list"
  | EOF

datatype panic = IndexOutOfRange | NilDereference | NegativeRepeatCount

datatype 'a result = Ok 'a | Err error | Panic panic

section \<open>Data model\<close>

text \<open>ssh.go: \<open>type SSHClient struct\<close>.  Of the handle \<open>conn\<close> the record keeps whether it
  is non-nil (\<open>Run\<close> dereferences it without a test); \<open>sess\<close> is only used under
  \<open>sessOpened\<close> or \<open>running\<close>, which are set together with it.  The pipes are left out.\<close>

record SSHClient =
  ssh_conn :: bool
  ssh_user :: string
  ssh_host :: string
  ssh_connOpened :: bool
  ssh_sessOpened :: bool
  ssh_running :: bool
  ssh_env :: string
  ssh_color :: string
  ssh_signer :: "string option"

text \<open>localhost.go: \<open>type LocalhostClient struct\<close>.  \<open>lh_cmd\<close> is the \<open>*exec.Cmd\<close>
  (\<open>None\<close> is nil); an \<open>exec.Cmd\<close> is represented by its argument vector and its
  \<open>Process\<close> field (\<open>None\<close> until \<open>Start\<close> has succeeded; the number is the pid).\<close>

record ExecCmd =
  ec_Args :: "string list"
  ec_Process :: "nat option"

record LocalhostClient =
  lh_cmd :: "ExecCmd option"
  lh_user :: string
  lh_running :: bool
  lh_env :: string

text \<open>The \<open>Client\<close> interface has the two implementations above.\<close>

datatype Client = SSH SSHClient | Localhost LocalhostClient

text \<open>The \<open>io.Reader\<close> values a task can carry as \<open>Input\<close>: the tar stream of an upload
  (working directory, path, exclude list) or the controller's standard input.\<close>

datatype Reader = TarStream string string string | OsStdin

text \<open>task.go: \<open>type Task struct\<close>; \<open>t_Input = None\<close> is a nil \<open>Input\<close>.\<close>

record Task =
  t_Run :: string
  t_Input :: "Reader option"
  t_Clients :: "Client list"
  t_TTY :: bool

text \<open>The configuration types are declared in a file that is not part of the sources
  at hand; they are taken with the fields the code reads.\<close>

record Upload =
  up_Src :: string
  up_Dst :: string
  up_Exc :: string

record Command =
  cmd_Name :: string
  cmd_Run :: string
  cmd_Local :: string
  cmd_Script :: string
  cmd_Upload :: "Upload list"
  cmd_Stdin :: bool
  cmd_Once :: bool
  cmd_Serial :: int

text \<open>sup.go: \<open>type Stackup struct\<close>, without the configuration pointer.\<close>

record Stackup =
  sup_debug :: bool
  sup_prefix :: bool

text \<open>What the operating system answers to the calls made while tasks are built:
  \<open>os.Getwd\<close>, the output of \<open>bash -c\<close> run in a directory, the two steps that start
  the local \<open>tar\<close>, opening and reading a file, and \<open>user.Current\<close>.\<close>

record World =
  w_Getwd :: "error + string"
  w_bashOutput :: "string \<Rightarrow> string \<Rightarrow> error + string"
  w_tarStdoutPipe :: "string \<Rightarrow> string \<Rightarrow> string \<Rightarrow> error option"
  w_tarStart :: "string \<Rightarrow> string \<Rightarrow> string \<Rightarrow> error option"
  w_Open :: "string \<Rightarrow> error option"
  w_ReadAll :: "string \<Rightarrow> error + string"
  w_userCurrent :: "error + string"

section \<open>Local helpers (localhost.go, tar.go)\<close>

text \<open>\<open>ResolveLocalPath\<close>: \<open>bash -c (env + "echo -n " + path)\<close> in \<open>cwd\<close>.\<close>

definition ResolveLocalPath :: "World \<Rightarrow> string \<Rightarrow> string \<Rightarrow> string \<Rightarrow> error + string" where
  "ResolveLocalPath w cwd path env =
     (case w_bashOutput w cwd (env @ ''echo -n '' @ path) of
        Inl e \<Rightarrow> Inl (Wrap e ''resolving path failed'')
      | Inr resolvedFilename \<Rightarrow> Inr resolvedFilename)"

text \<open>\<open>RemoteTarCommand\<close>: \<open>fmt.Sprintf("tar -C \"%s\" -xzf -", dir)\<close>.\<close>

definition RemoteTarCommand :: "string \<Rightarrow> string" where
  "RemoteTarCommand dir = ''tar -C '' @ [CHR 0x22] @ dir @ [CHR 0x22] @ '' -xzf -''"

text \<open>\<open>NewTarStreamReader\<close>: the pipe, then the start of the \<open>tar\<close> process.\<close>

definition NewTarStreamReader :: "World \<Rightarrow> string \<Rightarrow> string \<Rightarrow> string \<Rightarrow> error + Reader" where
  "NewTarStreamReader w cwd path exclude =
     (case w_tarStdoutPipe w cwd path exclude of
        Some e \<Rightarrow> Inl (Wrap e ''tar: stdout pipe failed'')
      | None \<Rightarrow>
          (case w_tarStart w cwd path exclude of
             Some e \<Rightarrow> Inl (Wrap e ''tar: starting cmd failed'')
           | None \<Rightarrow> Inr (TarStream cwd path exclude)))"

text \<open>\<open>LocalhostClient.Connect\<close>: records the current user (the first argument is the
  answer of \<open>user.Current\<close>); on failure the client is left as it is and the error is
  returned.\<close>

definition LocalhostClient_Connect :: "error + string \<Rightarrow> LocalhostClient \<Rightarrow> LocalhostClient \<times> error option" where
  "LocalhostClient_Connect current c =
     (case current of
        Inl e \<Rightarrow> (c, Some e)
      | Inr u \<Rightarrow> (c\<lparr>lh_user := u\<rparr>, None))"

section \<open>Task builder (task.go, \<open>Stackup.createTasks\<close>)\<close>

text \<open>The Go slice expression \<open>clients[i:j]\<close>, for \<open>i \<le> j \<le> len(clients)\<close>.\<close>

definition slice :: "'a list \<Rightarrow> nat \<Rightarrow> nat \<Rightarrow> 'a list" where
  "slice xs i j = take (j - i) (drop i xs)"

text \<open>
  The loop \<open>for i := 0; i < len(clients); i += cmd.Serial\<close> with its body, appending to
  \<open>tasks\<close>.  The source enters it only under \<open>cmd.Serial > 0\<close>; the guard is repeated
  in the loop condition, which is what makes the loop terminate.  \<open>i\<close> and \<open>j\<close> do not
  wrap in the source's machine \<open>int\<close>: the first \<open>j\<close> is \<open>cmd.Serial\<close> itself, and a
  later round is only reached with \<open>cmd.Serial \<le> i < len(clients)\<close>, where the sum stays
  below twice the length of a slice.
\<close>

function serialLoop :: "Task \<Rightarrow> Client list \<Rightarrow> int \<Rightarrow> nat \<Rightarrow> Task list \<Rightarrow> Task list" where
  "serialLoop task clients serial i tasks =
     (if 0 < serial \<and> i < length clients then
        (let j = i + nat serial;
             j = (if j > length clients then length clients else j);
             copyTask = task\<lparr>t_Clients := slice clients i j\<rparr>
         in serialLoop task clients serial (i + nat serial) (tasks @ [copyTask]))
      else tasks)"
  by pat_completeness auto
termination
  by (relation "measure (\<lambda>(task, clients, serial, i, tasks). length clients - i)") auto

declare serialLoop.simps [simp del]

text \<open>
  The three-way choice that the source writes out once for each of the upload, script
  and remote bodies: \<open>cmd.Once\<close> first (indexing \<open>clients[0]\<close>, which panics on an empty
  slice), then \<open>cmd.Serial > 0\<close>, otherwise all clients.
\<close>

definition fanOut :: "Command \<Rightarrow> Client list \<Rightarrow> Task \<Rightarrow> Task list \<Rightarrow> Task list result" where
  "fanOut cmd clients task tasks =
     (if cmd_Once cmd then
        (case clients of
           [] \<Rightarrow> Panic IndexOutOfRange
         | c0 # _ \<Rightarrow> Ok (tasks @ [task\<lparr>t_Clients := [c0]\<rparr>]))
      else if cmd_Serial cmd > 0 then
        Ok (serialLoop task clients (cmd_Serial cmd) 0 tasks)
      else Ok (tasks @ [task\<lparr>t_Clients := clients\<rparr>]))"

text \<open>The loop over \<open>cmd.Upload\<close>.\<close>

fun uploadTasks :: "World \<Rightarrow> Command \<Rightarrow> Client list \<Rightarrow> string \<Rightarrow> string \<Rightarrow> Upload list \<Rightarrow> Task list
    \<Rightarrow> Task list result" where
  "uploadTasks w cmd clients env cwd [] tasks = Ok tasks"
| "uploadTasks w cmd clients env cwd (upload # rest) tasks =
     (case ResolveLocalPath w cwd (up_Src upload) env of
        Inl e \<Rightarrow> Err (Wrap e (''upload: '' @ up_Src upload))
      | Inr uploadFile \<Rightarrow>
          (case NewTarStreamReader w cwd uploadFile (up_Exc upload) of
             Inl e \<Rightarrow> Err (Wrap e (''upload: '' @ up_Src upload))
           | Inr uploadTarReader \<Rightarrow>
               (case fanOut cmd clients
                       \<lparr>t_Run = RemoteTarCommand (up_Dst upload), t_Input = Some uploadTarReader,
                        t_Clients = [], t_TTY = False\<rparr> tasks of
                  Ok tasks' \<Rightarrow> uploadTasks w cmd clients env cwd rest tasks'
                | Err e \<Rightarrow> Err e
                | Panic p \<Rightarrow> Panic p)))"

text \<open>The debug prefix and the optional standard input, as set on the script, local
  and remote tasks.\<close>

definition debugStdin :: "Stackup \<Rightarrow> Command \<Rightarrow> Task \<Rightarrow> Task" where
  "debugStdin app cmd task =
     (let task = (if sup_debug app then task\<lparr>t_Run := ''set -x;'' @ t_Run task\<rparr> else task)
      in if cmd_Stdin cmd then task\<lparr>t_Input := Some OsStdin\<rparr> else task)"

definition scriptTasks :: "World \<Rightarrow> Stackup \<Rightarrow> Command \<Rightarrow> Client list \<Rightarrow> Task list \<Rightarrow> Task list result" where
  "scriptTasks w app cmd clients tasks =
     (if cmd_Script cmd \<noteq> [] then
        (case w_Open w (cmd_Script cmd) of
           Some e \<Rightarrow> Err (Wrap e ''can't open script'')
         | None \<Rightarrow>
             (case w_ReadAll w (cmd_Script cmd) of
                Inl e \<Rightarrow> Err (Wrap e ''can't read script'')
              | Inr data \<Rightarrow>
                  fanOut cmd clients
                    (debugStdin app cmd \<lparr>t_Run = data, t_Input = None, t_Clients = [], t_TTY = True\<rparr>)
                    tasks))
      else Ok tasks)"

definition localTasks :: "World \<Rightarrow> Stackup \<Rightarrow> Command \<Rightarrow> string \<Rightarrow> Task list \<Rightarrow> Task list" where
  "localTasks w app cmd env tasks =
     (if cmd_Local cmd \<noteq> [] then
        (let local = \<lparr>lh_cmd = None, lh_user = [], lh_running = False,
                      lh_env = env @ ''export SUP_HOST='' @ [CHR 0x22] @ ''localhost'' @ [CHR 0x22] @ '';''\<rparr>;
             local = fst (LocalhostClient_Connect (w_userCurrent w) local);
             task = \<lparr>t_Run = cmd_Local cmd, t_Input = None, t_Clients = [Localhost local], t_TTY = True\<rparr>
         in tasks @ [debugStdin app cmd task])
      else tasks)"

definition remoteTasks :: "Stackup \<Rightarrow> Command \<Rightarrow> Client list \<Rightarrow> Task list \<Rightarrow> Task list result" where
  "remoteTasks app cmd clients tasks =
     (if cmd_Run cmd \<noteq> [] then
        fanOut cmd clients
          (debugStdin app cmd \<lparr>t_Run = cmd_Run cmd, t_Input = None, t_Clients = [], t_TTY = True\<rparr>)
          tasks
      else Ok tasks)"

definition createTasks :: "World \<Rightarrow> Stackup \<Rightarrow> Command \<Rightarrow> Client list \<Rightarrow> string \<Rightarrow> Task list result" where
  "createTasks w app cmd clients env =
     (case w_Getwd w of
        Inl e \<Rightarrow> Err (Wrap e ''resolving CWD failed'')
      | Inr cwd \<Rightarrow>
          (case uploadTasks w cmd clients env cwd (cmd_Upload cmd) [] of
             Ok tasks \<Rightarrow>
               (case scriptTasks w app cmd clients tasks of
                  Ok tasks \<Rightarrow> remoteTasks app cmd clients (localTasks w app cmd env tasks)
                | Err e \<Rightarrow> Err e
                | Panic p \<Rightarrow> Panic p)
           | Err e \<Rightarrow> Err e
           | Panic p \<Rightarrow> Panic p))"

section \<open>SSH client (ssh.go)\<close>

text \<open>The source of the SSH client comes in two versions, one after the other; the
  definitions follow the second one, in which \<open>Run\<close> opens its session through
  \<open>openSession\<close> and \<open>parseHost\<close> assigns \<open>c.host\<close> itself.\<close>

text \<open>Go's \<open>strings.LastIndex(s, sep)\<close> for a separator of one byte: the index of the last
  occurrence, \<open>-1\<close> if there is none.\<close>

fun lastIndexFrom :: "nat \<Rightarrow> char \<Rightarrow> string \<Rightarrow> int \<Rightarrow> int" where
  "lastIndexFrom i sep [] found = found"
| "lastIndexFrom i sep (x # xs) found = lastIndexFrom (Suc i) sep xs (if x = sep then int i else found)"

definition LastIndex :: "string \<Rightarrow> char \<Rightarrow> int" where
  "LastIndex s sep = lastIndexFrom 0 sep s (- 1)"

text \<open>\<open>strings.Contains(s, sep)\<close> for a separator of one byte.\<close>

definition Contains :: "string \<Rightarrow> char \<Rightarrow> bool" where
  "Contains s sep \<longleftrightarrow> sep \<in> set s"

text \<open>\<open>strings.HasPrefix\<close> and \<open>strings.HasSuffix\<close>.\<close>

definition HasPrefix :: "string \<Rightarrow> string \<Rightarrow> bool" where
  "HasPrefix s pre \<longleftrightarrow> take (length pre) s = pre"

definition HasSuffix :: "string \<Rightarrow> string \<Rightarrow> bool" where
  "HasSuffix s suf \<longleftrightarrow> length suf \<le> length s \<and> drop (length s - length suf) s = suf"

text \<open>The decimal digits of a port number (\<open>%d\<close> in \<open>fmt.Sprintf\<close>; only used for a
  positive number).\<close>

function itoa :: "nat \<Rightarrow> string" where
  "itoa n = (if n < 10 then [''0123456789'' ! n] else itoa (n div 10) @ [''0123456789'' ! (n mod 10)])"
  by pat_completeness auto
termination
  by (relation "measure (\<lambda>n. n)") auto

declare itoa.simps [simp del]

text \<open>An entry of the parsed ssh configuration (\<open>sshconfig.SSHHost\<close>, an external
  package), with the fields the constructor reads.\<close>

record SSHHost =
  sc_Host :: "string list"
  sc_HostName :: string
  sc_User :: string
  sc_Port :: int
  sc_IdentityFile :: string

text \<open>What the environment answers to the constructor and to \<open>ConnectWith\<close>: the current
  user, \<open>$HOME\<close>, reading and parsing a key file, and the two dialers, \<open>ssh.Dial\<close> and
  the bastion's \<open>DialThrough\<close> (network address and user; the answer is the message of
  the error, if any).  The colour table \<open>Colors\<close> and \<open>ResetColor\<close> are declared in a file
  that is not part of the sources at hand; they are taken as they are given here, the
  table by its first entry and the rest.\<close>

record Env =
  e_userCurrent :: "error + string"
  e_HOME :: string
  e_ReadFile :: "string \<Rightarrow> error + string"
  e_ParsePrivateKey :: "string \<Rightarrow> error + string"
  e_dial :: "string \<Rightarrow> string \<Rightarrow> string option"
  e_dialThrough :: "string \<Rightarrow> string \<Rightarrow> string option"
  e_Color0 :: string
  e_ColorsRest :: "string list"
  e_ResetColor :: string

definition Colors :: "Env \<Rightarrow> string list" where
  "Colors e = e_Color0 e # e_ColorsRest e"

text \<open>\<open>SSHClient.getPrivateKey\<close>: a \<open>.pub\<close> file gives no signer and no error.\<close>

definition getPrivateKey :: "Env \<Rightarrow> string \<Rightarrow> string option \<times> error option" where
  "getPrivateKey e file =
     (if HasSuffix file ''.pub'' then (None, None)
      else (case e_ReadFile e file of
              Inl err \<Rightarrow> (None, Some err)
            | Inr data \<Rightarrow>
                (case e_ParsePrivateKey e data of
                   Inl err \<Rightarrow> (Some [], Some err)
                 | Inr signer \<Rightarrow> (Some signer, None))))"

text \<open>The first two steps of \<open>SSHClient.parseHost\<close>: the host string without the schema
  \<open>ssh://\<close>, and its parts before and after the last \<open>@\<close>.\<close>

definition stripSchema :: "string \<Rightarrow> string" where
  "stripSchema host = (if length host > 6 \<and> take 6 host = ''ssh://'' then drop 6 host else host)"

definition userBeforeAt :: "string \<Rightarrow> string" where
  "userBeforeAt host = take (nat (LastIndex host CHR ''@'')) host"

definition hostAfterAt :: "string \<Rightarrow> string" where
  "hostAfterAt host =
     (if LastIndex host CHR ''@'' \<noteq> - 1 then drop (nat (LastIndex host CHR ''@'' + 1)) host else host)"

text \<open>\<open>SSHClient.parseHost\<close>: strip the schema, split at the last \<open>@\<close>, default the
  user, refuse a slash, default the port.\<close>

definition parseHost :: "Env \<Rightarrow> SSHClient \<Rightarrow> string \<Rightarrow> SSHClient \<times> error option" where
  "parseHost e c host =
     (let host = stripSchema host;
          c = (if LastIndex host CHR ''@'' \<noteq> - 1 then c\<lparr>ssh_user := userBeforeAt host\<rparr> else c);
          host = hostAfterAt host
      in case (if ssh_user c = [] then e_userCurrent e else Inr (ssh_user c)) of
           Inl err \<Rightarrow> (c, Some err)
         | Inr u \<Rightarrow>
             (let c = c\<lparr>ssh_user := u\<rparr>
              in if Contains host CHR ''/'' then
                   (c, Some (ErrConnect (ssh_user c) host ''unexpected slash in the host URL''))
                 else
                   (let host = (if \<not> Contains host CHR '':'' then host @ '':22'' else host)
                    in (c\<lparr>ssh_host := host\<rparr>, None))))"

text \<open>The part of \<open>NewSSHClient\<close> run for the first configuration entry one of whose
  aliases is the host string.\<close>

definition aliasClient :: "Env \<Rightarrow> SSHClient \<Rightarrow> string \<Rightarrow> SSHHost \<Rightarrow> SSHClient \<times> error option" where
  "aliasClient e c env sshHost =
     (let c = c\<lparr>ssh_host := sc_HostName sshHost, ssh_user := sc_User sshHost\<rparr>;
          c = (if sc_Port sshHost > 0
               then c\<lparr>ssh_host := ssh_host c @ '':'' @ itoa (nat (sc_Port sshHost))\<rparr> else c);
          identityFile = sc_IdentityFile sshHost;
          identityFile = (if identityFile \<noteq> [] \<and> HasPrefix identityFile ''~''
                          then e_HOME e @ drop 1 identityFile else identityFile);
          key = (if identityFile \<noteq> [] then getPrivateKey e identityFile else (ssh_signer c, None));
          c = c\<lparr>ssh_signer := fst key\<rparr>
      in case snd key of
           Some err \<Rightarrow> (c, Some (Wrap err ''get private key''))
         | None \<Rightarrow>
             (c\<lparr>ssh_env := env @ ''export SUP_HOST='' @ [CHR 0x22] @ ssh_host c @ [CHR 0x22] @ '';''\<rparr>,
              None))"

text \<open>\<open>NewSSHClient\<close>.  The two nested loops return at the first entry, in order, that
  lists the host string among its aliases.\<close>

definition NewSSHClient :: "Env \<Rightarrow> string \<Rightarrow> string \<Rightarrow> nat \<Rightarrow> SSHHost list \<Rightarrow> SSHClient \<times> error option" where
  "NewSSHClient e host env i sshConfigHosts =
     (let c = \<lparr>ssh_conn = False, ssh_user = [], ssh_host = host,
               ssh_connOpened = False, ssh_sessOpened = False, ssh_running = False,
               ssh_env = [], ssh_color = Colors e ! (i mod length (Colors e)),
               ssh_signer = None\<rparr>
      in case find (\<lambda>sshHost. host \<in> set (sc_Host sshHost)) sshConfigHosts of
           Some sshHost \<Rightarrow> aliasClient e c env sshHost
         | None \<Rightarrow>
             parseHost e
               (c\<lparr>ssh_env := env @ ''export SUP_HOST='' @ [CHR 0x22] @ host @ [CHR 0x22] @ '';''\<rparr>)
               host)"

text \<open>\<open>SSHClient.ConnectWith\<close>; the dialer answers with the message of its error, if
  any (the choice of the authentication methods is left out).  The second component
  lists the addresses that were dialled.  \<open>Connect\<close> dials directly.\<close>

definition ConnectWith :: "(string \<Rightarrow> string \<Rightarrow> string option) \<Rightarrow> SSHClient
    \<Rightarrow> (SSHClient \<times> error option) \<times> string list" where
  "ConnectWith dialer c =
     (if ssh_connOpened c then ((c, Some (ErrorString ''Already connected'')), [])
      else (case dialer (ssh_host c) (ssh_user c) of
              Some msg \<Rightarrow> ((c\<lparr>ssh_conn := False\<rparr>, Some (ErrConnect (ssh_user c) (ssh_host c) msg)),
                           [ssh_host c])
            | None \<Rightarrow> ((c\<lparr>ssh_conn := True, ssh_connOpened := True\<rparr>, None), [ssh_host c])))"

definition Connect :: "Env \<Rightarrow> SSHClient \<Rightarrow> (SSHClient \<times> error option) \<times> string list" where
  "Connect e c = ConnectWith (e_dial e) c"

text \<open>What the SSH library answers during one session: \<open>NewSession\<close>, \<open>RequestPty\<close>, the
  three pipes, \<open>Start\<close> (the message of its error), copying the input, closing the
  remote stdin, closing the session and closing the connection.\<close>

record Sess =
  se_NewSession :: "error option"
  se_RequestPty :: "error option"
  se_StdinPipe :: "error option"
  se_StdoutPipe :: "error option"
  se_StderrPipe :: "error option"
  se_Start :: "string \<Rightarrow> string option"
  se_Copy :: "error option"
  se_StdinClose :: "error option"
  se_sessClose :: "error option"
  se_connClose :: "error option"

text \<open>\<open>SSHClient.openSession\<close>; \<open>c.conn.NewSession()\<close> dereferences \<open>c.conn\<close>.\<close>

definition openSession :: "Sess \<Rightarrow> SSHClient \<Rightarrow> (SSHClient \<times> error option) result" where
  "openSession s c =
     (if ssh_sessOpened c then Ok (c, Some (ErrorString ''Session already connected''))
      else if \<not> ssh_conn c then Panic NilDereference
      else (case se_NewSession s of
              Some err \<Rightarrow> Ok (c, Some err)
            | None \<Rightarrow> Ok (c\<lparr>ssh_sessOpened := True\<rparr>, None)))"

text \<open>The end of \<open>SSHClient.Run\<close>, from the test of \<open>task.Input\<close> on.  The result holds the
  client, the string handed to \<open>sess.Start\<close> and the error.\<close>

definition startCommand :: "Sess \<Rightarrow> SSHClient \<Rightarrow> Task \<Rightarrow> SSHClient \<times> string option \<times> error option" where
  "startCommand s c task =
     (if t_Input task \<noteq> None then
        (case se_Start s (t_Run task) of
           Some msg \<Rightarrow> (c, Some (t_Run task), Some (ErrTask (t_Run task) msg))
         | None \<Rightarrow>
             (case se_Copy s of
                Some err \<Rightarrow> (c, Some (t_Run task), Some (Wrap err ''copying input failed''))
              | None \<Rightarrow>
                  (case se_StdinClose s of
                     Some err \<Rightarrow> (c, Some (t_Run task), Some (Wrap err ''closing input failed''))
                   | None \<Rightarrow> (c\<lparr>ssh_running := True\<rparr>, Some (t_Run task), None))))
      else
        (case se_Start s (ssh_env c @ t_Run task) of
           Some msg \<Rightarrow> (c, Some (ssh_env c @ t_Run task), Some (ErrTask (t_Run task) msg))
         | None \<Rightarrow> (c\<lparr>ssh_running := True\<rparr>, Some (ssh_env c @ t_Run task), None)))"

text \<open>\<open>SSHClient.Run\<close>.\<close>

definition SSHClient_Run :: "Sess \<Rightarrow> SSHClient \<Rightarrow> Task
    \<Rightarrow> (SSHClient \<times> string option \<times> error option) result" where
  "SSHClient_Run s c task =
     (if ssh_running c then Ok (c, None, Some (ErrorString ''Session already running''))
      else
        (case openSession s c of
           Panic p \<Rightarrow> Panic p
         | Err err \<Rightarrow> Err err
         | Ok (c, Some err) \<Rightarrow> Ok (c, None, Some err)
         | Ok (c, None) \<Rightarrow>
             (case (if t_TTY task then se_RequestPty s else None) of
                Some err \<Rightarrow> Ok (c, None, Some (Wrap err ''request for pseudo terminal failed''))
              | None \<Rightarrow>
                  (case se_StdinPipe s of
                     Some err \<Rightarrow> Ok (c, None, Some err)
                   | None \<Rightarrow>
                       (case se_StdoutPipe s of
                          Some err \<Rightarrow> Ok (c, None, Some err)
                        | None \<Rightarrow>
                            (case se_StderrPipe s of
                               Some err \<Rightarrow> Ok (c, None, Some err)
                             | None \<Rightarrow> Ok (startCommand s c task)))))))"

text \<open>\<open>SSHClient.Close\<close>.\<close>

definition SSHClient_Close :: "Sess \<Rightarrow> SSHClient \<Rightarrow> SSHClient \<times> error option" where
  "SSHClient_Close s c =
     (let early = (if ssh_sessOpened c then se_sessClose s else None);
          c = (if ssh_sessOpened c then c\<lparr>ssh_sessOpened := False\<rparr> else c)
      in case early of
           Some err \<Rightarrow> (c, Some err)
         | None \<Rightarrow>
             (if \<not> ssh_connOpened c then
                (c, Some (ErrorString ''Trying to close the already closed connection''))
              else (c\<lparr>ssh_connOpened := False, ssh_running := False\<rparr>, se_connClose s)))"

text \<open>\<open>SSHClient.Prefix\<close> and \<open>LocalhostClient.Prefix\<close>: the coloured prefix and the
  length of its uncoloured part.\<close>

definition SSHClient_Prefix :: "Env \<Rightarrow> SSHClient \<Rightarrow> string \<times> int" where
  "SSHClient_Prefix e c =
     (let host = ssh_user c @ ''@'' @ ssh_host c @ '' | ''
      in (ssh_color c @ host @ e_ResetColor e, int (length host)))"

definition LocalhostClient_Prefix :: "Env \<Rightarrow> LocalhostClient \<Rightarrow> string \<times> int" where
  "LocalhostClient_Prefix e c =
     (let host = lh_user c @ ''@localhost'' @ '' | ''
      in (e_ResetColor e @ host, int (length host)))"

fun Prefix :: "Env \<Rightarrow> Client \<Rightarrow> string \<times> int" where
  "Prefix e (SSH c) = SSHClient_Prefix e c"
| "Prefix e (Localhost c) = LocalhostClient_Prefix e c"

section \<open>Localhost client (localhost.go)\<close>

text \<open>What the operating system answers while a local command is started and run: the
  three pipes, \<open>Start\<close> (the message of its error, or the pid of the new process),
  \<open>Wait\<close>, and the delivery of a signal to a process.\<close>

record Proc =
  pr_StdoutPipe :: "error option"
  pr_StderrPipe :: "error option"
  pr_StdinPipe :: "error option"
  pr_Start :: "string + nat"
  pr_Wait :: "error option"
  pr_Signal :: "nat \<Rightarrow> nat \<Rightarrow> error option"

text \<open>\<open>LocalhostClient.Run\<close>.  \<open>c.cmd\<close> is assigned before the pipes are made; its
  \<open>Process\<close> is set by a successful \<open>Start\<close> only.\<close>

definition LocalhostClient_Run :: "Proc \<Rightarrow> LocalhostClient \<Rightarrow> Task \<Rightarrow> LocalhostClient \<times> error option" where
  "LocalhostClient_Run p c task =
     (if lh_running c then (c, Some (ErrorString ''Command already running. ''))
      else
        (let cmd = \<lparr>ec_Args = [''bash'', ''-c'', lh_env c @ t_Run task], ec_Process = None\<rparr>;
             c = c\<lparr>lh_cmd := Some cmd\<rparr>
         in case pr_StdoutPipe p of
              Some err \<Rightarrow> (c, Some err)
            | None \<Rightarrow>
                (case pr_StderrPipe p of
                   Some err \<Rightarrow> (c, Some err)
                 | None \<Rightarrow>
                     (case pr_StdinPipe p of
                        Some err \<Rightarrow> (c, Some err)
                      | None \<Rightarrow>
                          (case pr_Start p of
                             Inl msg \<Rightarrow> (c, Some (ErrTask (t_Run task) msg))
                           | Inr pid \<Rightarrow>
                               (c\<lparr>lh_cmd := Some (cmd\<lparr>ec_Process := Some pid\<rparr>), lh_running := True\<rparr>,
                                None))))))"

text \<open>\<open>LocalhostClient.Wait\<close>.\<close>

definition LocalhostClient_Wait :: "Proc \<Rightarrow> LocalhostClient \<Rightarrow> (LocalhostClient \<times> error option) result" where
  "LocalhostClient_Wait p c =
     (if \<not> lh_running c then Ok (c, Some (ErrorString ''Trying to wait on stopped command. ''))
      else (case lh_cmd c of
              None \<Rightarrow> Panic NilDereference
            | Some cmd \<Rightarrow> Ok (c\<lparr>lh_running := False\<rparr>, pr_Wait p)))"

text \<open>\<open>LocalhostClient.Signal\<close>: \<open>c.cmd.Process.Signal(sig)\<close>.  The field access
  \<open>c.cmd.Process\<close> dereferences \<open>c.cmd\<close>; the method of \<open>os.Process\<close> reads its receiver,
  so a nil \<open>Process\<close> is a nil dereference as well.\<close>

definition LocalhostClient_Signal :: "Proc \<Rightarrow> LocalhostClient \<Rightarrow> nat \<Rightarrow> error option result" where
  "LocalhostClient_Signal p c sig =
     (case lh_cmd c of
        None \<Rightarrow> Panic NilDereference
      | Some cmd \<Rightarrow>
          (case ec_Process cmd of
             None \<Rightarrow> Panic NilDereference
           | Some pid \<Rightarrow> Ok (pr_Signal p pid sig)))"

text \<open>Calls made on a localhost client, and the client reached by a sequence of calls in
  which no \<open>Run\<close> has succeeded: the result is \<open>None\<close> from the first successful \<open>Run\<close>
  on (and when a call panics).\<close>

datatype lh_call =
    CallConnect "error + string"
  | CallRun Proc Task
  | CallWait Proc
  | CallClose

fun beforeRun :: "lh_call list \<Rightarrow> LocalhostClient \<Rightarrow> LocalhostClient option" where
  "beforeRun [] c = Some c"
| "beforeRun (CallConnect current # calls) c = beforeRun calls (fst (LocalhostClient_Connect current c))"
| "beforeRun (CallRun p task # calls) c =
     (case LocalhostClient_Run p c task of
        (c', Some err) \<Rightarrow> beforeRun calls c'
      | (c', None) \<Rightarrow> None)"
| "beforeRun (CallWait p # calls) c =
     (case LocalhostClient_Wait p c of
        Ok (c', err) \<Rightarrow> beforeRun calls c'
      | Err err \<Rightarrow> None
      | Panic pn \<Rightarrow> None)"
| "beforeRun (CallClose # calls) c = beforeRun calls c"

section \<open>Task executor (task.go, \<open>Task.do\<close> and \<open>Task.clientsFinish\<close>)\<close>

text \<open>The prefix computed at the head of the launch loop of \<open>Task.do\<close>.
  \<open>strings.Repeat\<close> panics on a negative count.\<close>

definition doPrefix :: "Env \<Rightarrow> bool \<Rightarrow> int \<Rightarrow> Client \<Rightarrow> string result" where
  "doPrefix e onPrefix maxLen c =
     (if onPrefix then
        (let prefix = fst (Prefix e c); prefixLen = snd (Prefix e c)
         in if int (length prefix) < maxLen then
              (if maxLen - prefixLen < 0 then Panic NegativeRepeatCount
               else Ok (replicate (nat (maxLen - prefixLen)) CHR '' '' @ prefix))
            else Ok prefix)
      else Ok [])"

text \<open>The loop of \<open>Stackup.Run\<close> that computes \<open>maxLen\<close> over the connected clients.\<close>

definition maxPrefixLen :: "Env \<Rightarrow> Client list \<Rightarrow> int" where
  "maxPrefixLen e clients =
     foldl (\<lambda>maxLen client. if snd (Prefix e client) > maxLen then snd (Prefix e client) else maxLen)
       0 clients"

text \<open>\<open>Task.formatClientPrefix\<close>: \<open>fmt.Sprintf("%" + strconv.Itoa(len) + "s", p)\<close> pads on
  the left up to the width \<open>len\<close>, and on the right when the number is negative.  The
  width is counted in bytes here (Go counts runes; the two agree on ASCII).\<close>

definition formatClientPrefix :: "Env \<Rightarrow> Client \<Rightarrow> int \<Rightarrow> string" where
  "formatClientPrefix e c len =
     (let p = fst (Prefix e c)
      in if 0 \<le> len then replicate (nat len - length p) CHR '' '' @ p
         else p @ replicate (nat (- len) - length p) CHR '' '')"

text \<open>How a goroutine of \<open>clientsFinish\<close> ends: it returns, or it ends the whole process
  with \<open>os.Exit\<close>.\<close>

datatype ending = Returns | Exits int

text \<open>The body of the goroutine started for one client, given what \<open>c.Wait()\<close> returned.
  \<open>render\<close> is the \<open>%v\<close> formatting of an error.  The result holds the lines written to
  the standard error and the ending.\<close>

definition clientFinish :: "(error \<Rightarrow> string) \<Rightarrow> Env \<Rightarrow> bool \<Rightarrow> int \<Rightarrow> Client \<Rightarrow> error option
    \<Rightarrow> string list \<times> ending" where
  "clientFinish render e onPrefix len c waited =
     (case waited of
        None \<Rightarrow> ([], Returns)
      | Some err \<Rightarrow>
          (let prefix = (if onPrefix then formatClientPrefix e c len else [])
           in case err of
                ExitError status \<Rightarrow>
                  (if status \<noteq> 15 then ([prefix @ render err @ [CHR 0x0A]], Exits status)
                   else ([prefix @ render err @ [CHR 0x0A]], Exits 1))
              | _ \<Rightarrow> ([prefix @ render err @ [CHR 0x0A]], Exits 1)))"

text \<open>\<open>Task.clientsFinish\<close>, given what \<open>Wait\<close> returned for each client of the task, in
  order.  The goroutines run concurrently, and the first \<open>os.Exit\<close> ends the process:
  the result lists the ways the phase can end, which is \<open>Returns\<close> alone when every
  goroutine returns and otherwise the exits of the goroutines that call \<open>os.Exit\<close>.\<close>

definition clientsFinish :: "(error \<Rightarrow> string) \<Rightarrow> Env \<Rightarrow> Task \<Rightarrow> bool \<Rightarrow> int \<Rightarrow> error option list
    \<Rightarrow> ending list" where
  "clientsFinish render e t onPrefix len waited =
     (let endings = map (\<lambda>(c, r). snd (clientFinish render e onPrefix len c r)) (zip (t_Clients t) waited)
      in if list_all (\<lambda>x. x = Returns) endings then [Returns]
         else filter (\<lambda>x. x \<noteq> Returns) endings)"

section \<open>Engine and command line (sup.go, cmd/sup/main.go)\<close>

text \<open>Of the two versions of \<open>Stackup.Run\<close> in the source, the definitions follow the
  second one, which connects the hosts through \<open>networkHost\<close> and builds the tasks with
  \<open>createTasks\<close>.\<close>

text \<open>The configuration types are declared in a file that is not part of the sources
  at hand; they are taken with the fields the code reads (the environment lists are
  left out).\<close>

record Network =
  net_Hosts :: "string list"
  net_Bastion :: string

record Supfile =
  sf_Networks :: "string \<rightharpoonup> Network"
  sf_Commands :: "string \<rightharpoonup> Command"
  sf_Targets :: "string \<rightharpoonup> string list"

definition ErrUsage :: error where
  "ErrUsage = ErrorString ''Usage: sup [OPTIONS] NETWORK COMMAND [...]''"

definition ErrUnknownNetwork :: error where
  "ErrUnknownNetwork = ErrorString ''Unknown network''"

definition ErrNetworkNoHosts :: error where
  "ErrNetworkNoHosts = ErrorString ''No hosts defined for a given network''"

definition ErrCmd :: "string \<Rightarrow> error" where
  "ErrCmd name = ErrorString (''Unknown command/target: '' @ name)"

text \<open>The two loops at the end of \<open>parseArgs\<close>: over the commands of a target, and over
  the arguments after the network.\<close>

fun targetCommands :: "Supfile \<Rightarrow> string list \<Rightarrow> Command list \<Rightarrow> error + Command list" where
  "targetCommands conf [] commands = Inr commands"
| "targetCommands conf (cmdTarget # rest) commands =
     (case sf_Commands conf cmdTarget of
        None \<Rightarrow> Inl (ErrCmd cmdTarget)
      | Some command \<Rightarrow> targetCommands conf rest (commands @ [command\<lparr>cmd_Name := cmdTarget\<rparr>]))"

fun argCommands :: "Supfile \<Rightarrow> string list \<Rightarrow> Command list \<Rightarrow> error + Command list" where
  "argCommands conf [] commands = Inr commands"
| "argCommands conf (cmd # rest) commands =
     (case (case sf_Targets conf cmd of
              Some target \<Rightarrow> targetCommands conf target commands
            | None \<Rightarrow> Inr commands) of
        Inl err \<Rightarrow> Inl err
      | Inr commands \<Rightarrow>
          (let commands = (case sf_Commands conf cmd of
                             Some command \<Rightarrow> commands @ [command\<lparr>cmd_Name := cmd\<rparr>]
                           | None \<Rightarrow> commands)
           in if sf_Targets conf cmd = None \<and> sf_Commands conf cmd = None then Inl (ErrCmd cmd)
              else argCommands conf rest commands))"

text \<open>\<open>parseArgs\<close>; \<open>inventory\<close> is the answer of \<open>network.ParseInventory()\<close>.\<close>

definition parseArgs :: "Supfile \<Rightarrow> string list \<Rightarrow> (Network \<Rightarrow> error + string list)
    \<Rightarrow> error + Network \<times> Command list" where
  "parseArgs conf args inventory =
     (if length args < 1 then Inl ErrUsage
      else (case sf_Networks conf (args ! 0) of
              None \<Rightarrow> Inl ErrUnknownNetwork
            | Some nw \<Rightarrow>
                (case inventory nw of
                   Inl err \<Rightarrow> Inl err
                 | Inr hosts \<Rightarrow>
                     (let network = nw\<lparr>net_Hosts := net_Hosts nw @ hosts\<rparr>
                      in if length (net_Hosts network) = 0 then Inl ErrNetworkNoHosts
                         else if length args < 2 then Inl ErrUsage
                         else (case argCommands conf (drop 1 args) [] of
                                 Inl err \<Rightarrow> Inl err
                               | Inr commands \<Rightarrow> Inr (network, commands))))))"

text \<open>\<open>Stackup.networkHost\<close>: what the goroutine sends (an error or a client), and the
  addresses it dialled.\<close>

definition networkHost :: "Env \<Rightarrow> SSHClient option \<Rightarrow> string \<Rightarrow> string \<Rightarrow> nat \<Rightarrow> SSHHost list
    \<Rightarrow> (error + Client) \<times> string list" where
  "networkHost e bastion host env i sshConfigHosts =
     (if host = ''localhost'' then
        (case LocalhostClient_Connect (e_userCurrent e)
                \<lparr>lh_cmd = None, lh_user = [], lh_running = False,
                 lh_env = env @ ''export SUP_HOST='' @ [CHR 0x22] @ host @ [CHR 0x22] @ '';''\<rparr> of
           (local, Some err) \<Rightarrow> (Inl (Wrap err ''connecting to localhost failed''), [])
         | (local, None) \<Rightarrow> (Inr (Localhost local), []))
      else
        (case NewSSHClient e host env i sshConfigHosts of
           (remote, Some err) \<Rightarrow> (Inl (Wrap err ''create new ssh client''), [])
         | (remote, None) \<Rightarrow>
             (if bastion \<noteq> None then
                (case ConnectWith (e_dialThrough e) remote of
                   ((remote, Some err), dialled) \<Rightarrow>
                     (Inl (Wrap err ''connecting to remote host through bastion failed''), dialled)
                 | ((remote, None), dialled) \<Rightarrow> (Inr (SSH remote), dialled))
              else
                (case Connect e remote of
                   ((remote, Some err), dialled) \<Rightarrow>
                     (Inl (Wrap err ''connecting to remote host failed''), dialled)
                 | ((remote, None), dialled) \<Rightarrow> (Inr (SSH remote), dialled)))))"

text \<open>How the execution of one task (\<open>Task.do\<close>) ends: it returns an error or none, or
  the process is ended by \<open>os.Exit\<close> in the reap phase.  How a run ends: the function
  returns, the process is ended by \<open>os.Exit\<close>, or building the tasks panics.\<close>

datatype task_end = TaskReturned "error option" | TaskExited int

datatype run_end = Returned "error option" | Exited int | Panicked panic

text \<open>The loop over the tasks of one command, and the loop over the commands.  The
  execution of one task is taken by its ending.  The first component collects the
  tasks that \<open>createTasks\<close> has produced.\<close>

fun runTasks :: "(Task \<Rightarrow> task_end) \<Rightarrow> Task list \<Rightarrow> run_end" where
  "runTasks taskDo [] = Returned None"
| "runTasks taskDo (task # rest) =
     (case taskDo task of
        TaskReturned None \<Rightarrow> runTasks taskDo rest
      | TaskReturned (Some err) \<Rightarrow> Returned (Some err)
      | TaskExited status \<Rightarrow> Exited status)"

fun runCommands :: "World \<Rightarrow> Stackup \<Rightarrow> (Task \<Rightarrow> task_end) \<Rightarrow> Client list \<Rightarrow> string \<Rightarrow> Command list
    \<Rightarrow> Task list \<Rightarrow> Task list \<times> run_end" where
  "runCommands w app taskDo clients env [] produced = (produced, Returned None)"
| "runCommands w app taskDo clients env (cmd # rest) produced =
     (case createTasks w app cmd clients env of
        Panic p \<Rightarrow> (produced, Panicked p)
      | Err err \<Rightarrow> (produced, Returned (Some (Wrap err ''creating task failed'')))
      | Ok tasks \<Rightarrow>
          (case runTasks taskDo tasks of
             Returned None \<Rightarrow> runCommands w app taskDo clients env rest (produced @ tasks)
           | other \<Rightarrow> (produced @ tasks, other)))"

text \<open>The bastion of \<open>Stackup.Run\<close>: none, or a connected client, or an error.\<close>

definition connectBastion :: "Env \<Rightarrow> Network \<Rightarrow> SSHHost list \<Rightarrow> error + SSHClient option" where
  "connectBastion e network sshConfigHosts =
     (if net_Bastion network \<noteq> [] then
        (case NewSSHClient e (net_Bastion network) ''bastion'' 0 sshConfigHosts of
           (bastion, Some err) \<Rightarrow> Inl (Wrap err ''create bastion'')
         | (bastion, None) \<Rightarrow>
             (case Connect e bastion of
                ((bastion, Some err), dialled) \<Rightarrow> Inl (Wrap err ''connecting to bastion failed'')
              | ((bastion, None), dialled) \<Rightarrow> Inr (Some bastion)))
      else Inr None)"

text \<open>
  \<open>Stackup.Run\<close>.  One goroutine per host sends either a client or an error; \<open>arrival\<close>
  lists the indices of the hosts in the order in which the goroutines deliver, which
  is the order of \<open>clients\<close>.  The colour index of the host at position \<open>k\<close> is \<open>k + 1\<close>.
  The errors that the deferred \<open>Close\<close> calls may append on return are left out.
\<close>

definition Stackup_Run :: "Env \<Rightarrow> World \<Rightarrow> Stackup \<Rightarrow> (Task \<Rightarrow> task_end) \<Rightarrow> nat list \<Rightarrow> SSHHost list
    \<Rightarrow> Network \<Rightarrow> string \<Rightarrow> Command list \<Rightarrow> Task list \<times> run_end" where
  "Stackup_Run e w app taskDo arrival sshConfigHosts network env commands =
     (if length commands = 0 then ([], Returned (Some (ErrorString ''no commands to be run'')))
      else
        (case connectBastion e network sshConfigHosts of
           Inl err \<Rightarrow> ([], Returned (Some err))
         | Inr bastion \<Rightarrow>
             (let sent = map (\<lambda>k. fst (networkHost e bastion (net_Hosts network ! k) env (k + 1)
                                         sshConfigHosts)) arrival;
                  clients = concat (map (\<lambda>r. case r of Inr c \<Rightarrow> [c] | Inl err \<Rightarrow> []) sent);
                  errs = concat (map (\<lambda>r. case r of Inl err \<Rightarrow> [err] | Inr c \<Rightarrow> []) sent)
              in case errs of
                   err # _ \<Rightarrow> ([], Returned (Some (Wrap err ''connecting to clients failed'')))
                 | [] \<Rightarrow> runCommands w app taskDo clients env commands [])))"

text \<open>What \<open>main\<close> is given: the flags, the parsed Supfile (or the error of reading or
  parsing it), and the answers of the inventory command, of the compilation of the
  two regular expressions (a matcher when it succeeds), of the parser of the ssh
  configuration, and of the resolution of the environment list into the prelude.\<close>

record Cli =
  cli_showHelp :: bool
  cli_showVersion :: bool
  cli_args :: "string list"
  cli_onlyHosts :: string
  cli_exceptHosts :: string
  cli_debug :: bool
  cli_disablePrefix :: bool
  cli_conf :: "error + Supfile"
  cli_inventory :: "Network \<Rightarrow> error + string list"
  cli_CompilePOSIX :: "string \<Rightarrow> error + (string \<Rightarrow> bool)"
  cli_sshconfig :: "error + SSHHost list"
  cli_env :: "error + string"

text \<open>The two host filters of \<open>main\<close>: the hosts kept, or the exit with status 1.\<close>

definition onlyFilter :: "Cli \<Rightarrow> string list \<Rightarrow> string list option" where
  "onlyFilter cli hosts =
     (if cli_onlyHosts cli \<noteq> [] then
        (case cli_CompilePOSIX cli (cli_onlyHosts cli) of
           Inl err \<Rightarrow> None
         | Inr matches \<Rightarrow>
             (let kept = filter matches hosts
              in if length kept = 0 then None else Some kept))
      else Some hosts)"

definition exceptFilter :: "Cli \<Rightarrow> string list \<Rightarrow> string list option" where
  "exceptFilter cli hosts =
     (if cli_exceptHosts cli \<noteq> [] then
        (case cli_CompilePOSIX cli (cli_exceptHosts cli) of
           Inl err \<Rightarrow> None
         | Inr matches \<Rightarrow>
             (let kept = filter (\<lambda>host. \<not> matches host) hosts
              in if length kept = 0 then None else Some kept))
      else Some hosts)"

text \<open>\<open>main\<close>: the tasks that were produced, and how the process ends (a return from
  \<open>main\<close> is the exit status 0).  \<open>arrival\<close> gives, for the final list of hosts, the order
  in which the connecting goroutines deliver.\<close>

definition main :: "Cli \<Rightarrow> Env \<Rightarrow> World \<Rightarrow> (Task \<Rightarrow> task_end) \<Rightarrow> (string list \<Rightarrow> nat list)
    \<Rightarrow> Task list \<times> run_end" where
  "main cli e w taskDo arrival =
     (if cli_showHelp cli \<or> cli_showVersion cli then ([], Exited 0)
      else (case cli_conf cli of
              Inl err \<Rightarrow> ([], Exited 1)
            | Inr conf \<Rightarrow>
                (case parseArgs conf (cli_args cli) (cli_inventory cli) of
                   Inl err \<Rightarrow> ([], Exited 1)
                 | Inr (network, commands) \<Rightarrow>
                     (case onlyFilter cli (net_Hosts network) of
                        None \<Rightarrow> ([], Exited 1)
                      | Some hosts \<Rightarrow>
                          (case exceptFilter cli hosts of
                             None \<Rightarrow> ([], Exited 1)
                           | Some hosts \<Rightarrow>
                               (case cli_sshconfig cli of
                                  Inl err \<Rightarrow> ([], Exited 1)
                                | Inr sshConfigHosts \<Rightarrow>
                                    (case cli_env cli of
                                       Inl err \<Rightarrow> ([], Exited 1)
                                     | Inr env \<Rightarrow>
                                         (case Stackup_Run e w
                                                 \<lparr>sup_debug = cli_debug cli,
                                                  sup_prefix = \<not> cli_disablePrefix cli\<rparr>
                                                 taskDo (arrival hosts) sshConfigHosts
                                                 (network\<lparr>net_Hosts := hosts\<rparr>) env commands of
                                            (produced, Returned None) \<Rightarrow> (produced, Exited 0)
                                          | (produced, Returned (Some err)) \<Rightarrow> (produced, Exited 1)
                                          | (produced, other) \<Rightarrow> (produced, other)))))))))"

section \<open>Properties of a group of tasks\<close>

text \<open>
  What the specification says of the tasks \<open>g\<close> built for one body of a command that is
  not \<open>once\<close>.  With \<open>serial = N > 0\<close>: there are \<open>\<lceil>n / N\<rceil>\<close> of them (\<open>n\<close> the number of
  clients), their client lists, one after the other, are the client list, and each
  holds at least one and at most \<open>N\<close> clients.  With \<open>serial \<le> 0\<close>, and whenever
  \<open>serial \<ge> n\<close>: one task, bound to all clients.
\<close>

definition serialBatches :: "Command \<Rightarrow> Client list \<Rightarrow> Task list \<Rightarrow> bool" where
  "serialBatches cmd clients g \<longleftrightarrow>
     (if 0 < cmd_Serial cmd then
        length g = (length clients + nat (cmd_Serial cmd) - 1) div nat (cmd_Serial cmd) \<and>
        concat (map t_Clients g) = clients \<and>
        (\<forall>t\<in>set g. t_Clients t \<noteq> [] \<and> int (length (t_Clients t)) \<le> cmd_Serial cmd)
      else map t_Clients g = [clients]) \<and>
     (int (length clients) \<le> cmd_Serial cmd \<longrightarrow> map t_Clients g = [clients])"

text \<open>What the specification says of the tasks \<open>g\<close> built for one body of a \<open>once\<close>
  command: one task, bound to the first client.\<close>

definition onceTask :: "Client list \<Rightarrow> Task list \<Rightarrow> bool" where
  "onceTask clients g \<longleftrightarrow> (\<exists>t c0 rest. g = [t] \<and> clients = c0 # rest \<and> t_Clients t = [c0])"

section \<open>Concrete inputs\<close>

text \<open>An environment in which every call succeeds, with two colours of the usual ANSI
  form; a connected SSH client as \<open>NewSSHClient\<close> and \<open>Connect\<close> leave it for the host
  string \<open>raw\<close>; commands, tasks and a small configuration.\<close>

definition ex_env :: Env where
  "ex_env = \<lparr>e_userCurrent = Inr ''deploy'', e_HOME = ''/home/deploy'',
             e_ReadFile = (\<lambda>file. Inl (ErrorString ''no such file'')),
             e_ParsePrivateKey = (\<lambda>data. Inl (ErrorString ''no key found'')),
             e_dial = (\<lambda>addr usr. None), e_dialThrough = (\<lambda>addr usr. None),
             e_Color0 = CHR 0x1B # ''[32m'', e_ColorsRest = [CHR 0x1B # ''[33m''],
             e_ResetColor = CHR 0x1B # ''[0m''\<rparr>"

definition ex_world :: World where
  "ex_world = \<lparr>w_Getwd = Inr ''/work'', w_bashOutput = (\<lambda>cwd script. Inr ''dist''),
               w_tarStdoutPipe = (\<lambda>cwd path exclude. None), w_tarStart = (\<lambda>cwd path exclude. None),
               w_Open = (\<lambda>name. None), w_ReadAll = (\<lambda>name. Inr ''uptime''),
               w_userCurrent = Inr ''deploy''\<rparr>"

definition ex_ssh :: "string \<Rightarrow> string \<Rightarrow> string \<Rightarrow> nat \<Rightarrow> SSHClient" where
  "ex_ssh raw usr addr i =
     \<lparr>ssh_conn = True, ssh_user = usr, ssh_host = addr,
      ssh_connOpened = True, ssh_sessOpened = False, ssh_running = False,
      ssh_env = ''export SUP_HOST='' @ [CHR 0x22] @ raw @ [CHR 0x22] @ '';'',
      ssh_color = Colors ex_env ! (i mod length (Colors ex_env)), ssh_signer = None\<rparr>"

definition ex_clients :: "Client list" where
  "ex_clients = [SSH (ex_ssh ''u@a'' ''u'' ''a:22'' 1), SSH (ex_ssh ''u@b'' ''u'' ''b:22'' 2),
                 SSH (ex_ssh ''u@c'' ''u'' ''c:22'' 3)]"

definition ex_app :: Stackup where
  "ex_app = \<lparr>sup_debug = False, sup_prefix = True\<rparr>"

definition ex_serial :: Command where
  "ex_serial = \<lparr>cmd_Name = ''restart'', cmd_Run = ''uptime'', cmd_Local = [], cmd_Script = [],
                cmd_Upload = [], cmd_Stdin = False, cmd_Once = False, cmd_Serial = 2\<rparr>"

definition ex_once :: Command where
  "ex_once = \<lparr>cmd_Name = ''build'', cmd_Run = ''date'', cmd_Local = [], cmd_Script = ''deploy.sh'',
              cmd_Upload = [\<lparr>up_Src = ''./dist'', up_Dst = ''/tmp'', up_Exc = []\<rparr>],
              cmd_Stdin = False, cmd_Once = True, cmd_Serial = 2\<rparr>"

definition ex_sess :: Sess where
  "ex_sess = \<lparr>se_NewSession = None, se_RequestPty = None, se_StdinPipe = None,
              se_StdoutPipe = None, se_StderrPipe = None, se_Start = (\<lambda>cmd. None),
              se_Copy = None, se_StdinClose = None, se_sessClose = None, se_connClose = None\<rparr>"

definition ex_upload_task :: Task where
  "ex_upload_task = \<lparr>t_Run = RemoteTarCommand ''/tmp'', t_Input = Some (TarStream ''/work'' ''dist'' []),
                     t_Clients = [SSH (ex_ssh ''u@a'' ''u'' ''a:22'' 1)], t_TTY = False\<rparr>"

definition ex_run_task :: Task where
  "ex_run_task = \<lparr>t_Run = ''uptime'', t_Input = None,
                  t_Clients = [SSH (ex_ssh ''u@a'' ''u'' ''a:22'' 1)], t_TTY = True\<rparr>"

definition ex_render :: "error \<Rightarrow> string" where
  "ex_render err =
     (case err of
        ExitError status \<Rightarrow> ''Process exited with status '' @ itoa (nat status)
      | _ \<Rightarrow> ''error'')"

definition ex_proc_failing :: Proc where
  "ex_proc_failing = \<lparr>pr_StdoutPipe = None, pr_StderrPipe = None, pr_StdinPipe = None,
                      pr_Start = Inl ''fork/exec: resource temporarily unavailable'',
                      pr_Wait = None, pr_Signal = (\<lambda>pid sig. None)\<rparr>"

definition ex_conf :: Supfile where
  "ex_conf = \<lparr>sf_Networks = [''prod'' \<mapsto> \<lparr>net_Hosts = [''u@a'', ''u@b''], net_Bastion = []\<rparr>,
                              ''empty'' \<mapsto> \<lparr>net_Hosts = [], net_Bastion = []\<rparr>],
              sf_Commands = [''restart'' \<mapsto> ex_serial, ''build'' \<mapsto> ex_once],
              sf_Targets = Map.empty\<rparr>"

definition ex_cli :: Cli where
  "ex_cli = \<lparr>cli_showHelp = False, cli_showVersion = False, cli_args = [''prod'', ''build''],
             cli_onlyHosts = [], cli_exceptHosts = [], cli_debug = False, cli_disablePrefix = False,
             cli_conf = Inr ex_conf, cli_inventory = (\<lambda>network. Inr []),
             cli_CompilePOSIX = (\<lambda>expr. Inl (ErrorString ''no expression'')),
             cli_sshconfig = Inr [], cli_env = Inr []\<rparr>"

definition ex_arrival :: "string list \<Rightarrow> nat list" where
  "ex_arrival hosts = rev [0..<length hosts]"

section \<open>The serial loop\<close>

text \<open>
  One round of the loop, and its end.  The loop only appends to its accumulator, so
  it is enough to study it from the empty list.
\<close>

lemma serialLoop_step:
  "0 < serial \<Longrightarrow> i < length clients \<Longrightarrow>
   serialLoop task clients serial i tasks =
   serialLoop task clients serial (i + nat serial)
     (tasks @ [task\<lparr>t_Clients := slice clients i (min (i + nat serial) (length clients))\<rparr>])"
  by (subst serialLoop.simps) (simp add: Let_def min_def)

lemma serialLoop_stop:
  "\<not> (0 < serial \<and> i < length clients) \<Longrightarrow> serialLoop task clients serial i tasks = tasks"
  by (subst serialLoop.simps) auto

lemma serialLoop_acc:
  "serialLoop task clients serial i tasks = tasks @ serialLoop task clients serial i []"
proof (induction "length clients - i" arbitrary: i tasks rule: less_induct)
  case less
  show ?case
  proof (cases "0 < serial \<and> i < length clients")
    case True
    then have m: "length clients - (i + nat serial) < length clients - i" by auto
    show ?thesis
      using True less[OF m, of "tasks @ [x]" for x] less[OF m, of "[x]" for x]
      by (simp add: serialLoop_step)
  next
    case False
    then show ?thesis by (simp add: serialLoop_stop)
  qed
qed

lemma serialLoop_cons:
  "0 < serial \<Longrightarrow> i < length clients \<Longrightarrow>
   serialLoop task clients serial i [] =
   task\<lparr>t_Clients := slice clients i (min (i + nat serial) (length clients))\<rparr>
     # serialLoop task clients serial (i + nat serial) []"
  using serialLoop_acc[of task clients serial "i + nat serial" "[x]" for x]
  by (simp add: serialLoop_step)

lemma slice_chunk:
  "slice xs i (min (i + n) (length xs)) @ drop (i + n) xs = drop i xs"
proof -
  have "slice xs i (min (i + n) (length xs)) = take n (drop i xs)"
    by (simp add: slice_def min_def)
  moreover have "drop (i + n) xs = drop n (drop i xs)"
    by (simp add: add.commute)
  ultimately show ?thesis
    by (simp only: append_take_drop_id)
qed

text \<open>
  The client lists of the tasks, one after the other, are the clients from \<open>i\<close> on;
  there are \<open>\<lceil>(n - i) / N\<rceil>\<close> tasks; each task is the given one bound to a non-empty
  slice of at most \<open>N\<close> clients.
\<close>

lemma serialLoop_concat:
  "0 < serial \<Longrightarrow> concat (map t_Clients (serialLoop task clients serial i [])) = drop i clients"
proof (induction "length clients - i" arbitrary: i rule: less_induct)
  case less
  show ?case
  proof (cases "i < length clients")
    case True
    then have m: "length clients - (i + nat serial) < length clients - i" using less.prems by auto
    show ?thesis
      using True less.prems less.hyps[OF m less.prems] slice_chunk[of clients i "nat serial"]
      by (simp add: serialLoop_cons)
  next
    case False
    then show ?thesis by (simp add: serialLoop_stop)
  qed
qed

lemma ceil_div_step: "Suc N \<le> d \<Longrightarrow> (d + N) div Suc N = Suc ((d - Suc N + N) div Suc N)"
proof -
  assume "Suc N \<le> d"
  then have "d + N = (d - Suc N + N) + Suc N" by simp
  then have "(d + N) div Suc N = ((d - Suc N + N) + Suc N) div Suc N" by simp
  also have "\<dots> = (d - Suc N + N) div Suc N + 1" by (rule div_add_self2) simp
  finally show ?thesis by simp
qed

lemma ceil_div_last: "0 < d \<Longrightarrow> d < Suc N \<Longrightarrow> (d + N) div Suc N = 1"
  by (rule div_nat_eqI) auto

lemma serialLoop_length:
  "0 < serial \<Longrightarrow>
   length (serialLoop task clients serial i []) = (length clients - i + (nat serial - 1)) div nat serial"
proof (induction "length clients - i" arbitrary: i rule: less_induct)
  case less
  show ?case
  proof (cases "i < length clients")
    case True
    then have m: "length clients - (i + nat serial) < length clients - i" using less.prems by auto
    obtain N where N: "nat serial = Suc N" using less.prems by (cases "nat serial") auto
    define d where "d = length clients - i"
    have d: "0 < d" "length clients - (i + Suc N) = d - Suc N"
      using True by (simp_all add: d_def)
    have ar: "Suc ((d - Suc N + N) div Suc N) = (d + N) div Suc N"
    proof (cases "Suc N \<le> d")
      case True
      then show ?thesis using ceil_div_step[OF True] by simp
    next
      case False
      then have "(d + N) div Suc N = 1" "d - Suc N = 0"
        using d(1) by (simp_all add: ceil_div_last)
      then show ?thesis by simp
    qed
    have ih: "length (serialLoop task clients serial (i + Suc N) []) = (d - Suc N + N) div Suc N"
      using less.hyps[OF m less.prems] d(2) by (simp add: N)
    have "length (serialLoop task clients serial i []) = Suc ((d - Suc N + N) div Suc N)"
      using True less.prems ih by (simp add: serialLoop_cons N)
    also have "\<dots> = (d + N) div Suc N" by (rule ar)
    finally show ?thesis by (simp add: N d_def)
  next
    case False
    then show ?thesis using less.prems by (simp add: serialLoop_stop)
  qed
qed

lemma serialLoop_members:
  "0 < serial \<Longrightarrow> t \<in> set (serialLoop task clients serial i []) \<Longrightarrow>
   t_Clients t \<noteq> [] \<and> int (length (t_Clients t)) \<le> serial \<and> t = task\<lparr>t_Clients := t_Clients t\<rparr>"
proof (induction "length clients - i" arbitrary: i rule: less_induct)
  case less
  show ?case
  proof (cases "i < length clients")
    case True
    then have m: "length clients - (i + nat serial) < length clients - i" using less.prems by auto
    let ?c = "task\<lparr>t_Clients := slice clients i (min (i + nat serial) (length clients))\<rparr>"
    from less.prems True have "t = ?c \<or> t \<in> set (serialLoop task clients serial (i + nat serial) [])"
      by (simp add: serialLoop_cons)
    then show ?thesis
    proof
      assume "t = ?c"
      then show ?thesis using True less.prems(1) by (auto simp: slice_def min_def)
    next
      assume "t \<in> set (serialLoop task clients serial (i + nat serial) [])"
      then show ?thesis using less.hyps[OF m less.prems(1)] by simp
    qed
  next
    case False
    then show ?thesis using less.prems by (simp add: serialLoop_stop)
  qed
qed

lemma serialLoop_single:
  "0 < serial \<Longrightarrow> clients \<noteq> [] \<Longrightarrow> int (length clients) \<le> serial \<Longrightarrow>
   serialLoop task clients serial 0 [] = [task\<lparr>t_Clients := clients\<rparr>]"
  by (simp add: serialLoop_cons serialLoop_stop slice_def min_def)

section \<open>The groups of tasks of a command\<close>

text \<open>
  \<open>createTasks\<close> appends, in this order, one group of tasks for each upload, one for
  the script, the local task, and one group for the remote command.  Whatever holds
  of every group that the three-way choice appends holds of each of these groups.
\<close>

lemma uploadTasks_groups:
  assumes fan: "\<And>task acc r. fanOut cmd clients task acc = Ok r \<Longrightarrow> \<exists>g. r = acc @ g \<and> G g"
  shows "uploadTasks w cmd clients env cwd ups acc = Ok r \<Longrightarrow>
         \<exists>gs. r = acc @ concat gs \<and> length gs = length ups \<and> (\<forall>g\<in>set gs. G g)"
proof (induction ups arbitrary: acc)
  case Nil
  then show ?case by simp
next
  case (Cons upload rest)
  from Cons.prems obtain task acc' where
    f: "fanOut cmd clients task acc = Ok acc'" and
    u: "uploadTasks w cmd clients env cwd rest acc' = Ok r"
    by (auto split: sum.splits result.splits)
  from fan[OF f] obtain g where g: "acc' = acc @ g" "G g" by blast
  from Cons.IH[OF u] obtain gs where gs: "r = acc' @ concat gs" "length gs = length rest" "\<forall>g\<in>set gs. G g"
    by blast
  have "r = acc @ concat (g # gs) \<and> length (g # gs) = length (upload # rest) \<and> (\<forall>x\<in>set (g # gs). G x)"
    using g gs by simp
  then show ?case by blast
qed

lemma createTasks_groups:
  assumes fan: "\<And>task acc r. fanOut cmd clients task acc = Ok r \<Longrightarrow> \<exists>g. r = acc @ g \<and> G g"
    and ok: "createTasks w app cmd clients env = Ok tasks"
  shows "\<exists>ups scr loc rem.
           tasks = concat ups @ scr @ loc @ rem \<and>
           length ups = length (cmd_Upload cmd) \<and> (\<forall>g\<in>set ups. G g) \<and>
           (if cmd_Script cmd = [] then scr = [] else G scr) \<and>
           (if cmd_Local cmd = [] then loc = [] else (\<exists>t l. loc = [t] \<and> t_Clients t = [Localhost l])) \<and>
           (if cmd_Run cmd = [] then rem = [] else G rem)"
proof -
  from ok obtain cwd t1 t2 where
    u: "uploadTasks w cmd clients env cwd (cmd_Upload cmd) [] = Ok t1" and
    s: "scriptTasks w app cmd clients t1 = Ok t2" and
    r: "remoteTasks app cmd clients (localTasks w app cmd env t2) = Ok tasks"
    by (auto simp: createTasks_def split: sum.splits result.splits)
  have "\<exists>gs. t1 = [] @ concat gs \<and> length gs = length (cmd_Upload cmd) \<and> (\<forall>g\<in>set gs. G g)"
    using fan u by (rule uploadTasks_groups)
  then obtain ups where
    ups: "t1 = concat ups" "length ups = length (cmd_Upload cmd)" "\<forall>g\<in>set ups. G g"
    by auto
  have "\<exists>scr. t2 = t1 @ scr \<and> (if cmd_Script cmd = [] then scr = [] else G scr)"
  proof (cases "cmd_Script cmd = []")
    case True
    then show ?thesis using s by (simp add: scriptTasks_def)
  next
    case False
    then obtain task where "fanOut cmd clients task t1 = Ok t2"
      using s by (auto simp: scriptTasks_def split: option.splits sum.splits)
    from fan[OF this] show ?thesis using False by simp
  qed
  then obtain scr where scr: "t2 = t1 @ scr" "if cmd_Script cmd = [] then scr = [] else G scr"
    by blast
  have "\<exists>loc. localTasks w app cmd env t2 = t2 @ loc \<and>
          (if cmd_Local cmd = [] then loc = [] else (\<exists>t l. loc = [t] \<and> t_Clients t = [Localhost l]))"
    by (simp add: localTasks_def debugStdin_def Let_def)
  then obtain loc where loc: "localTasks w app cmd env t2 = t2 @ loc"
    "if cmd_Local cmd = [] then loc = [] else (\<exists>t l. loc = [t] \<and> t_Clients t = [Localhost l])"
    by blast
  have "\<exists>rem. tasks = (t2 @ loc) @ rem \<and> (if cmd_Run cmd = [] then rem = [] else G rem)"
  proof (cases "cmd_Run cmd = []")
    case True
    then show ?thesis using r loc(1) by (simp add: remoteTasks_def)
  next
    case False
    then obtain task where "fanOut cmd clients task (t2 @ loc) = Ok tasks"
      using r loc(1) by (auto simp: remoteTasks_def)
    from fan[OF this] show ?thesis using False by simp
  qed
  then obtain rem where rem: "tasks = (t2 @ loc) @ rem" "if cmd_Run cmd = [] then rem = [] else G rem"
    by blast
  have "tasks = concat ups @ scr @ loc @ rem"
    using rem(1) scr(1) ups(1) by simp
  with ups(2,3) scr(2) loc(2) rem(2) show ?thesis by blast
qed

lemma fanOut_serialBatches:
  assumes "\<not> cmd_Once cmd" "clients \<noteq> []" "fanOut cmd clients task acc = Ok r"
  shows "\<exists>g. r = acc @ g \<and> serialBatches cmd clients g"
proof (cases "0 < cmd_Serial cmd")
  case True
  let ?g = "serialLoop task clients (cmd_Serial cmd) 0 []"
  have r: "r = acc @ ?g"
    using assms True serialLoop_acc[of task clients "cmd_Serial cmd" 0 acc] by (simp add: fanOut_def)
  have len: "length ?g = (length clients + nat (cmd_Serial cmd) - 1) div nat (cmd_Serial cmd)"
    using serialLoop_length[OF True, of task clients 0] True by simp
  have cc: "concat (map t_Clients ?g) = clients"
    using serialLoop_concat[OF True, of task clients 0] by simp
  have mem: "\<forall>t\<in>set ?g. t_Clients t \<noteq> [] \<and> int (length (t_Clients t)) \<le> cmd_Serial cmd"
    using serialLoop_members[OF True] by blast
  have one: "int (length clients) \<le> cmd_Serial cmd \<longrightarrow> map t_Clients ?g = [clients]"
    using serialLoop_single[OF True assms(2)] by simp
  show ?thesis using r len cc mem one True unfolding serialBatches_def by auto
next
  case False
  then have "r = acc @ [task\<lparr>t_Clients := clients\<rparr>]"
    using assms by (simp add: fanOut_def)
  then show ?thesis using False unfolding serialBatches_def by auto
qed

lemma fanOut_once:
  assumes "cmd_Once cmd" "fanOut cmd clients task acc = Ok r"
  shows "\<exists>g. r = acc @ g \<and> (\<exists>t c0 cs. g = [t] \<and> clients = c0 # cs \<and> t_Clients t = [c0])"
  using assms by (auto simp: fanOut_def split: list.splits)

text \<open>
  With at least one client the builder does not panic, and every task it produces is
  bound to at least one client.
\<close>

lemma fanOut_clients:
  assumes "clients \<noteq> []"
  shows "\<exists>g. fanOut cmd clients task acc = Ok (acc @ g) \<and> (\<forall>t\<in>set g. t_Clients t \<noteq> [])"
proof (cases "cmd_Once cmd")
  case True
  with assms show ?thesis by (cases clients) (simp_all add: fanOut_def)
next
  case False
  show ?thesis
  proof (cases "0 < cmd_Serial cmd")
    case True
    have "fanOut cmd clients task acc = Ok (acc @ serialLoop task clients (cmd_Serial cmd) 0 [])"
      using \<open>\<not> cmd_Once cmd\<close> True serialLoop_acc[of task clients "cmd_Serial cmd" 0 acc]
      by (simp add: fanOut_def)
    moreover have "\<forall>t\<in>set (serialLoop task clients (cmd_Serial cmd) 0 []). t_Clients t \<noteq> []"
      using serialLoop_members[OF True] by blast
    ultimately show ?thesis by blast
  next
    case False
    with \<open>\<not> cmd_Once cmd\<close> assms show ?thesis by (simp add: fanOut_def)
  qed
qed

lemma fanOut_Ok_clients:
  assumes "clients \<noteq> []" "fanOut cmd clients task acc = Ok r"
  shows "\<exists>g. r = acc @ g \<and> (\<forall>t\<in>set g. t_Clients t \<noteq> [])"
  using fanOut_clients[OF assms(1), of cmd task acc] assms(2) by auto

lemma uploadTasks_no_panic:
  assumes "clients \<noteq> []"
  shows "uploadTasks w cmd clients env cwd ups acc \<noteq> Panic p"
proof (induction ups arbitrary: acc)
  case Nil
  then show ?case by simp
next
  case (Cons upload rest)
  show ?case
  proof (cases "ResolveLocalPath w cwd (up_Src upload) env")
    case (Inl a)
    then show ?thesis by simp
  next
    case (Inr uploadFile)
    show ?thesis
    proof (cases "NewTarStreamReader w cwd uploadFile (up_Exc upload)")
      case (Inl a)
      with Inr show ?thesis by simp
    next
      case (Inr rd)
      obtain g where "fanOut cmd clients
            \<lparr>t_Run = RemoteTarCommand (up_Dst upload), t_Input = Some rd, t_Clients = [], t_TTY = False\<rparr> acc
          = Ok (acc @ g)"
        using fanOut_clients[OF assms] by blast
      with Inr \<open>ResolveLocalPath w cwd (up_Src upload) env = Inr uploadFile\<close> Cons.IH[of "acc @ g"]
      show ?thesis by simp
    qed
  qed
qed

lemma fanOut_no_panic:
  assumes "clients \<noteq> []"
  shows "fanOut cmd clients task acc \<noteq> Panic p"
  using fanOut_clients[OF assms, of cmd task acc] by auto

lemma scriptTasks_no_panic:
  assumes "clients \<noteq> []"
  shows "scriptTasks w app cmd clients acc \<noteq> Panic p"
  by (simp add: scriptTasks_def fanOut_no_panic[OF assms] split: option.splits sum.splits)

lemma remoteTasks_no_panic:
  assumes "clients \<noteq> []"
  shows "remoteTasks app cmd clients acc \<noteq> Panic p"
  by (simp add: remoteTasks_def fanOut_no_panic[OF assms])

lemma createTasks_no_panic:
  assumes "clients \<noteq> []"
  shows "createTasks w app cmd clients env \<noteq> Panic p"
proof (cases "w_Getwd w")
  case (Inl a)
  then show ?thesis by (simp add: createTasks_def)
next
  case (Inr cwd)
  show ?thesis
  proof (cases "uploadTasks w cmd clients env cwd (cmd_Upload cmd) []")
    case (Ok t1)
    show ?thesis
    proof (cases "scriptTasks w app cmd clients t1")
      case (Ok t2)
      with \<open>uploadTasks w cmd clients env cwd (cmd_Upload cmd) [] = Ok t1\<close> Inr
        remoteTasks_no_panic[OF assms]
      show ?thesis by (simp add: createTasks_def)
    next
      case (Err x)
      with \<open>uploadTasks w cmd clients env cwd (cmd_Upload cmd) [] = Ok t1\<close> Inr
      show ?thesis by (simp add: createTasks_def)
    next
      case (Panic x)
      with scriptTasks_no_panic[OF assms] show ?thesis by blast
    qed
  next
    case (Err x)
    with Inr show ?thesis by (simp add: createTasks_def)
  next
    case (Panic x)
    with uploadTasks_no_panic[OF assms] show ?thesis by blast
  qed
qed

lemma createTasks_clients:
  assumes "clients \<noteq> []" "createTasks w app cmd clients env = Ok tasks"
  shows "\<forall>t\<in>set tasks. t_Clients t \<noteq> []"
proof -
  have "\<exists>ups scr loc rem.
           tasks = concat ups @ scr @ loc @ rem \<and>
           length ups = length (cmd_Upload cmd) \<and> (\<forall>g\<in>set ups. \<forall>t\<in>set g. t_Clients t \<noteq> []) \<and>
           (if cmd_Script cmd = [] then scr = [] else \<forall>t\<in>set scr. t_Clients t \<noteq> []) \<and>
           (if cmd_Local cmd = [] then loc = [] else (\<exists>t l. loc = [t] \<and> t_Clients t = [Localhost l])) \<and>
           (if cmd_Run cmd = [] then rem = [] else \<forall>t\<in>set rem. t_Clients t \<noteq> [])"
  proof (rule createTasks_groups)
    show "\<And>task acc r. fanOut cmd clients task acc = Ok r \<Longrightarrow>
            \<exists>g. r = acc @ g \<and> (\<forall>t\<in>set g. t_Clients t \<noteq> [])"
      using assms(1) by (rule fanOut_Ok_clients)
    show "createTasks w app cmd clients env = Ok tasks" by (rule assms(2))
  qed
  then obtain ups scr loc rem where d:
    "tasks = concat ups @ scr @ loc @ rem"
    "\<forall>g\<in>set ups. \<forall>t\<in>set g. t_Clients t \<noteq> []"
    "if cmd_Script cmd = [] then scr = [] else \<forall>t\<in>set scr. t_Clients t \<noteq> []"
    "if cmd_Local cmd = [] then loc = [] else (\<exists>t l. loc = [t] \<and> t_Clients t = [Localhost l])"
    "if cmd_Run cmd = [] then rem = [] else \<forall>t\<in>set rem. t_Clients t \<noteq> []"
    by blast
  have s: "\<forall>t\<in>set scr. t_Clients t \<noteq> []" using d(3) by (cases "cmd_Script cmd = []") auto
  have l: "\<forall>t\<in>set loc. t_Clients t \<noteq> []" using d(4) by (cases "cmd_Local cmd = []") auto
  have r: "\<forall>t\<in>set rem. t_Clients t \<noteq> []" using d(5) by (cases "cmd_Run cmd = []") auto
  show ?thesis using d(1,2) s l r by auto
qed

text \<open>
  When every call of the operating system succeeds and there is a client, the builder
  returns its tasks.
\<close>

lemma uploadTasks_no_error:
  assumes "clients \<noteq> []"
    and "\<And>dir script. \<exists>out. w_bashOutput w dir script = Inr out"
    and "\<And>dir path exclude. w_tarStdoutPipe w dir path exclude = None"
    and "\<And>dir path exclude. w_tarStart w dir path exclude = None"
  shows "\<exists>tasks. uploadTasks w cmd clients env cwd ups acc = Ok tasks"
proof (induction ups arbitrary: acc)
  case Nil
  then show ?case by simp
next
  case (Cons upload rest)
  obtain out where out: "w_bashOutput w cwd (env @ ''echo -n '' @ up_Src upload) = Inr out"
    using assms(2) by blast
  obtain g where g: "fanOut cmd clients
        \<lparr>t_Run = RemoteTarCommand (up_Dst upload), t_Input = Some (TarStream cwd out (up_Exc upload)),
         t_Clients = [], t_TTY = False\<rparr> acc = Ok (acc @ g)"
    using fanOut_clients[OF assms(1)] by blast
  show ?case
    using Cons.IH[of "acc @ g"] out g assms(3,4)
    by (simp add: ResolveLocalPath_def NewTarStreamReader_def)
qed

lemma createTasks_returns:
  assumes "clients \<noteq> []"
    and "\<exists>cwd. w_Getwd w = Inr cwd"
    and "\<And>dir script. \<exists>out. w_bashOutput w dir script = Inr out"
    and "\<And>dir path exclude. w_tarStdoutPipe w dir path exclude = None"
    and "\<And>dir path exclude. w_tarStart w dir path exclude = None"
    and "\<And>name. w_Open w name = None"
    and "\<And>name. \<exists>data. w_ReadAll w name = Inr data"
  shows "\<exists>tasks. createTasks w app cmd clients env = Ok tasks"
proof -
  obtain cwd where cwd: "w_Getwd w = Inr cwd" using assms(2) by blast
  obtain t1 where t1: "uploadTasks w cmd clients env cwd (cmd_Upload cmd) [] = Ok t1"
    using uploadTasks_no_error[OF assms(1,3,4,5)] by blast
  obtain data where data: "w_ReadAll w (cmd_Script cmd) = Inr data" using assms(7) by blast
  have "\<exists>t2. scriptTasks w app cmd clients t1 = Ok t2"
    using fanOut_clients[OF assms(1), of cmd _ t1] assms(6) data
    by (simp add: scriptTasks_def) blast
  then obtain t2 where t2: "scriptTasks w app cmd clients t1 = Ok t2" by blast
  have "\<exists>t3. remoteTasks app cmd clients (localTasks w app cmd env t2) = Ok t3"
    using fanOut_clients[OF assms(1), of cmd _ "localTasks w app cmd env t2"]
    by (simp add: remoteTasks_def) blast
  then show ?thesis using cwd t1 t2 by (simp add: createTasks_def)
qed

section \<open>The engine and the command line\<close>

lemma runTasks_no_panic: "runTasks taskDo tasks \<noteq> Panicked p"
  by (induction tasks) (auto split: task_end.splits option.splits)

lemma runCommands_clients:
  assumes "clients \<noteq> []"
  shows "(\<forall>t\<in>set produced. t_Clients t \<noteq> []) \<Longrightarrow>
         (\<forall>t\<in>set (fst (runCommands w app taskDo clients env commands produced)). t_Clients t \<noteq> []) \<and>
         snd (runCommands w app taskDo clients env commands produced) \<noteq> Panicked p"
proof (induction commands arbitrary: produced)
  case Nil
  then show ?case by simp
next
  case (Cons cmd rest)
  show ?case
  proof (cases "createTasks w app cmd clients env")
    case (Ok tasks)
    have all: "\<forall>t\<in>set (produced @ tasks). t_Clients t \<noteq> []"
      using createTasks_clients[OF assms Ok] Cons.prems by auto
    show ?thesis
    proof (cases "runTasks taskDo tasks = Returned None")
      case True
      with Ok Cons.IH[OF all] show ?thesis by simp
    next
      case False
      then have "runCommands w app taskDo clients env (cmd # rest) produced
                 = (produced @ tasks, runTasks taskDo tasks)"
        using Ok by (auto split: run_end.splits option.splits)
      with all runTasks_no_panic[of taskDo tasks p] show ?thesis by simp
    qed
  next
    case (Err x)
    with Cons.prems show ?thesis by simp
  next
    case (Panic x)
    with createTasks_no_panic[OF assms] show ?thesis by blast
  qed
qed

lemma sent_split:
  "sent \<noteq> [] \<Longrightarrow> concat (map (\<lambda>r. case r of Inl err \<Rightarrow> [err] | Inr c \<Rightarrow> []) sent) = [] \<Longrightarrow>
   concat (map (\<lambda>r. case r of Inr c \<Rightarrow> [c] | Inl err \<Rightarrow> []) sent) \<noteq> []"
  by (cases sent) (auto split: sum.splits)

lemma Stackup_Run_clients:
  assumes "arrival \<noteq> []"
  shows "(\<forall>t\<in>set (fst (Stackup_Run e w app taskDo arrival sshConfigHosts network env commands)).
            t_Clients t \<noteq> []) \<and>
         snd (Stackup_Run e w app taskDo arrival sshConfigHosts network env commands) \<noteq> Panicked p"
proof (cases "length commands = 0")
  case True
  then show ?thesis by (simp add: Stackup_Run_def)
next
  case False
  show ?thesis
  proof (cases "connectBastion e network sshConfigHosts")
    case (Inl a)
    with False show ?thesis by (simp add: Stackup_Run_def)
  next
    case (Inr bastion)
    let ?sent = "map (\<lambda>k. fst (networkHost e bastion (net_Hosts network ! k) env (k + 1) sshConfigHosts)) arrival"
    let ?errs = "concat (map (\<lambda>r. case r of Inl err \<Rightarrow> [err] | Inr c \<Rightarrow> []) ?sent)"
    let ?clients = "concat (map (\<lambda>r. case r of Inr c \<Rightarrow> [c] | Inl err \<Rightarrow> []) ?sent)"
    show ?thesis
    proof (cases ?errs)
      case Nil
      have ne: "?sent \<noteq> []" using assms by simp
      have c: "?clients \<noteq> []" using sent_split[OF ne Nil] .
      have "Stackup_Run e w app taskDo arrival sshConfigHosts network env commands
            = (case ?errs of
                 err # _ \<Rightarrow> ([], Returned (Some (Wrap err ''connecting to clients failed'')))
               | [] \<Rightarrow> runCommands w app taskDo ?clients env commands [])"
        by (simp only: Stackup_Run_def Let_def Inr sum.case False if_False)
      also have "\<dots> = runCommands w app taskDo ?clients env commands []"
        by (simp only: Nil list.case)
      finally have "Stackup_Run e w app taskDo arrival sshConfigHosts network env commands
            = runCommands w app taskDo ?clients env commands []" .
      with runCommands_clients[OF c, of "[]" w app taskDo env commands p] show ?thesis by simp
    next
      case (Cons err rest)
      have "Stackup_Run e w app taskDo arrival sshConfigHosts network env commands
            = (case ?errs of
                 err # _ \<Rightarrow> ([], Returned (Some (Wrap err ''connecting to clients failed'')))
               | [] \<Rightarrow> runCommands w app taskDo ?clients env commands [])"
        by (simp only: Stackup_Run_def Let_def Inr sum.case False if_False)
      also have "\<dots> = ([], Returned (Some (Wrap err ''connecting to clients failed'')))"
        by (simp only: Cons list.case)
      finally show ?thesis by simp
    qed
  qed
qed

lemma onlyFilter_nonempty: "hosts \<noteq> [] \<Longrightarrow> onlyFilter cli hosts = Some kept \<Longrightarrow> kept \<noteq> []"
  by (auto simp: onlyFilter_def Let_def split: if_splits sum.splits)

lemma exceptFilter_nonempty: "hosts \<noteq> [] \<Longrightarrow> exceptFilter cli hosts = Some kept \<Longrightarrow> kept \<noteq> []"
  by (auto simp: exceptFilter_def Let_def split: if_splits sum.splits)

lemma parseArgs_hosts:
  "parseArgs conf args inventory = Inr (network, commands) \<Longrightarrow> net_Hosts network \<noteq> []"
  by (auto simp: parseArgs_def Let_def split: if_splits option.splits sum.splits)

lemma parseArgs_no_hosts:
  "args \<noteq> [] \<Longrightarrow> sf_Networks conf (args ! 0) = Some nw \<Longrightarrow> inventory nw = Inr hosts \<Longrightarrow>
   net_Hosts nw @ hosts = [] \<Longrightarrow> parseArgs conf args inventory = Inl ErrNetworkNoHosts"
  by (cases args) (simp_all add: parseArgs_def)

lemma main_clients:
  assumes arr: "\<forall>hosts. mset (arrival hosts) = mset [0..<length hosts]"
  shows "(\<forall>t\<in>set (fst (main cli e w taskDo arrival)). t_Clients t \<noteq> []) \<and>
         snd (main cli e w taskDo arrival) \<noteq> Panicked p"
proof -
  have arr_ne: "arrival hosts \<noteq> []" if "hosts \<noteq> []" for hosts
  proof -
    have "size (mset (arrival hosts)) = size (mset [0..<length hosts])"
      using arr by simp
    then have "length (arrival hosts) = length hosts" by simp
    with that show ?thesis by auto
  qed
  {
    fix conf network commands hosts1 hosts sshConfigHosts env
    assume pa: "parseArgs conf (cli_args cli) (cli_inventory cli) = Inr (network, commands)"
      and f1: "onlyFilter cli (net_Hosts network) = Some hosts1"
      and f2: "exceptFilter cli hosts1 = Some hosts"
    let ?run = "Stackup_Run e w \<lparr>sup_debug = cli_debug cli, sup_prefix = \<not> cli_disablePrefix cli\<rparr>
                  taskDo (arrival hosts) sshConfigHosts (network\<lparr>net_Hosts := hosts\<rparr>) env commands"
    have "hosts \<noteq> []"
      using exceptFilter_nonempty[OF onlyFilter_nonempty[OF parseArgs_hosts[OF pa] f1] f2] .
    then have "arrival hosts \<noteq> []" by (rule arr_ne)
    from Stackup_Run_clients[OF this]
    have "(\<forall>t\<in>set (fst ?run). t_Clients t \<noteq> []) \<and> snd ?run \<noteq> Panicked p" .
    then have "(\<forall>t\<in>set (fst (case ?run of
                    (produced, Returned None) \<Rightarrow> (produced, Exited 0)
                  | (produced, Returned (Some err)) \<Rightarrow> (produced, Exited 1)
                  | (produced, other) \<Rightarrow> (produced, other))). t_Clients t \<noteq> []) \<and>
               snd (case ?run of
                    (produced, Returned None) \<Rightarrow> (produced, Exited 0)
                  | (produced, Returned (Some err)) \<Rightarrow> (produced, Exited 1)
                  | (produced, other) \<Rightarrow> (produced, other)) \<noteq> Panicked p"
      by (cases ?run) (auto split: run_end.splits option.splits)
  }
  note core = this
  show ?thesis
    unfolding main_def
    using core
    by (auto split: sum.splits option.splits prod.splits simp del: split_paired_All split_paired_Ex)
qed

lemma main_parse_error:
  "\<not> cli_showHelp cli \<Longrightarrow> \<not> cli_showVersion cli \<Longrightarrow> cli_conf cli = Inr conf \<Longrightarrow>
   parseArgs conf (cli_args cli) (cli_inventory cli) = Inl err \<Longrightarrow>
   main cli e w taskDo arrival = ([], Exited 1)"
  by (simp add: main_def)

section \<open>Parsing a host string\<close>

lemma lastIndexFrom_notin: "sep \<notin> set s \<Longrightarrow> lastIndexFrom i sep s found = found"
  by (induction s arbitrary: i found) auto

lemma lastIndexFrom_last:
  "sep \<notin> set h \<Longrightarrow> lastIndexFrom i sep (u @ sep # h) found = int (i + length u)"
  by (induction u arbitrary: i found) (auto simp: lastIndexFrom_notin)

lemma LastIndex_notin: "sep \<notin> set s \<Longrightarrow> LastIndex s sep = - 1"
  by (simp add: LastIndex_def lastIndexFrom_notin)

lemma LastIndex_last: "sep \<notin> set h \<Longrightarrow> LastIndex (u @ sep # h) sep = int (length u)"
  by (simp add: LastIndex_def lastIndexFrom_last)

lemma HasPrefix_schema: "HasPrefix s ''ssh://'' \<longleftrightarrow> take 6 s = ''ssh://''"
proof -
  have "length ''ssh://'' = 6" by simp
  then show ?thesis by (simp only: HasPrefix_def)
qed

lemma split_no_at:
  "CHR ''@'' \<notin> set h \<Longrightarrow> hostAfterAt h = h \<and> LastIndex h CHR ''@'' = - 1"
  by (simp add: hostAfterAt_def LastIndex_notin)

lemma split_at:
  "CHR ''@'' \<notin> set h \<Longrightarrow>
   hostAfterAt (u @ ''@'' @ h) = h \<and> userBeforeAt (u @ ''@'' @ h) = u \<and>
   LastIndex (u @ ''@'' @ h) CHR ''@'' \<noteq> - 1"
proof -
  assume "CHR ''@'' \<notin> set h"
  then have l: "LastIndex (u @ ''@'' @ h) CHR ''@'' = int (length u)"
    using LastIndex_last[of "CHR ''@''" h u] by simp
  have n: "nat (int (length u) + 1) = Suc (length u)" by simp
  show ?thesis
    unfolding hostAfterAt_def userBeforeAt_def l n by simp
qed

lemma stripSchema_plain:
  "\<not> HasPrefix s ''ssh://'' \<Longrightarrow> stripSchema s = s"
  by (simp add: stripSchema_def HasPrefix_schema)

lemma stripSchema_schema:
  "s \<noteq> [] \<Longrightarrow> stripSchema (''ssh://'' @ s) = s"
  by (simp add: stripSchema_def)

lemma user_host_no_schema:
  assumes "CHR ''@'' \<notin> set h" "CHR ''/'' \<notin> set h" "\<not> HasPrefix u ''ssh://''"
  shows "\<not> HasPrefix (if u = [] then h else u @ ''@'' @ h) ''ssh://''"
proof (cases "u = []")
  case True
  have "HasPrefix h ''ssh://'' \<Longrightarrow> CHR ''/'' \<in> set h"
  proof -
    assume "HasPrefix h ''ssh://''"
    then have "take 6 h = ''ssh://''" by (simp only: HasPrefix_schema)
    then have "CHR ''/'' \<in> set (take 6 h)" by simp
    then show ?thesis by (rule in_set_takeD)
  qed
  with assms True show ?thesis by auto
next
  case False
  have "HasPrefix (u @ ''@'' @ h) ''ssh://'' \<Longrightarrow> HasPrefix u ''ssh://''"
  proof -
    assume a: "HasPrefix (u @ ''@'' @ h) ''ssh://''"
    then have t: "take 6 (u @ CHR ''@'' # h) = ''ssh://''" by (simp add: HasPrefix_schema)
    show ?thesis
    proof (cases "length u < 6")
      case True
      then obtain k where "6 - length u = Suc k" by (cases "6 - length u") auto
      then have "CHR ''@'' \<in> set (take 6 (u @ CHR ''@'' # h))" by simp
      with t have "CHR ''@'' \<in> set ''ssh://''" by simp
      then show ?thesis by simp

    next
      case False
      then have "take 6 (u @ CHR ''@'' # h) = take 6 u" by simp
      with t have "take 6 u = ''ssh://''" by (simp only:)
      then show ?thesis by (simp only: HasPrefix_schema)
    qed
  qed
  with assms False show ?thesis by auto
qed

lemma parseHost_slash:
  assumes "Contains (hostAfterAt (stripSchema raw)) CHR ''/''"
  shows "snd (parseHost e c raw) =
     Some (case (if ssh_user (if LastIndex (stripSchema raw) CHR ''@'' \<noteq> - 1
                              then c\<lparr>ssh_user := userBeforeAt (stripSchema raw)\<rparr> else c) = []
                 then e_userCurrent e
                 else Inr (ssh_user (if LastIndex (stripSchema raw) CHR ''@'' \<noteq> - 1
                              then c\<lparr>ssh_user := userBeforeAt (stripSchema raw)\<rparr> else c))) of
             Inl err \<Rightarrow> err
           | Inr u \<Rightarrow> ErrConnect u (hostAfterAt (stripSchema raw)) ''unexpected slash in the host URL'')"
  using assms by (simp add: parseHost_def Let_def split: sum.split)

lemma networkHost_NewSSHClient_error:
  "host \<noteq> ''localhost'' \<Longrightarrow> snd (NewSSHClient e host env i sshConfigHosts) = Some err \<Longrightarrow>
   networkHost e bastion host env i sshConfigHosts = (Inl (Wrap err ''create new ssh client''), [])"
  by (cases "NewSSHClient e host env i sshConfigHosts") (simp add: networkHost_def)

section \<open>Running and closing an SSH client\<close>

text \<open>
  The string handed to \<open>sess.Start\<close>; the flags of a new client; \<open>Close\<close> on a client
  without an open connection or session, and on a client with an open connection whose
  session, if any, closes cleanly.
\<close>

lemma startCommand_started:
  "fst (snd (startCommand s c task)) =
     Some (if t_Input task \<noteq> None then t_Run task else ssh_env c @ t_Run task)"
  by (simp add: startCommand_def split: option.split)

lemma NewSSHClient_flags:
  "\<not> ssh_connOpened (fst (NewSSHClient e host env i sshConfigHosts)) \<and>
   \<not> ssh_sessOpened (fst (NewSSHClient e host env i sshConfigHosts)) \<and>
   \<not> ssh_running (fst (NewSSHClient e host env i sshConfigHosts))"
  by (simp add: NewSSHClient_def aliasClient_def parseHost_def Let_def
      split: option.split sum.split)

lemma Close_closed:
  "\<not> ssh_connOpened c \<Longrightarrow> \<not> ssh_sessOpened c \<Longrightarrow>
   SSHClient_Close s c = (c, Some (ErrorString ''Trying to close the already closed connection''))"
  by (simp add: SSHClient_Close_def)

lemma Close_open:
  "ssh_connOpened d \<Longrightarrow> (ssh_sessOpened d \<longrightarrow> se_sessClose s = None) \<Longrightarrow>
   snd (SSHClient_Close s d) = se_connClose s \<and>
   \<not> ssh_connOpened (fst (SSHClient_Close s d)) \<and>
   \<not> ssh_sessOpened (fst (SSHClient_Close s d)) \<and>
   \<not> ssh_running (fst (SSHClient_Close s d))"
  by (simp add: SSHClient_Close_def Let_def)

section \<open>The reap phase\<close>

text \<open>
  How the goroutine of one client ends, by what \<open>Wait\<close> returned.
\<close>

lemma clientFinish_endings:
  "snd (clientFinish render e onPrefix len c None) = Returns"
  "status \<noteq> 15 \<Longrightarrow> snd (clientFinish render e onPrefix len c (Some (ExitError status))) = Exits status"
  "snd (clientFinish render e onPrefix len c (Some (ExitError 15))) = Exits 1"
  "(\<And>status. err \<noteq> ExitError status) \<Longrightarrow> snd (clientFinish render e onPrefix len c (Some err)) = Exits 1"
  by (simp_all add: clientFinish_def Let_def split: error.split)

section \<open>The localhost client before a successful Run\<close>

text \<open>
  A failed \<open>Run\<close> leaves \<open>running\<close> as it was and a command without a process; so
  does every other call, as long as no \<open>Run\<close> has succeeded.
\<close>

lemma Run_failed_inv:
  assumes "LocalhostClient_Run p c task = (c1, Some err)"
    and "\<forall>cmd. lh_cmd c = Some cmd \<longrightarrow> ec_Process cmd = None"
  shows "lh_running c1 = lh_running c \<and> (\<forall>cmd. lh_cmd c1 = Some cmd \<longrightarrow> ec_Process cmd = None)"
proof (cases "lh_running c")
  case True
  with assms show ?thesis by (simp add: LocalhostClient_Run_def)
next
  case False
  let ?c = "c\<lparr>lh_cmd := Some \<lparr>ec_Args = [''bash'', ''-c'', lh_env c @ t_Run task], ec_Process = None\<rparr>\<rparr>"
  have "c1 = ?c"
    using assms(1) False
    by (simp add: LocalhostClient_Run_def Let_def split: option.splits sum.splits)
  then show ?thesis using False by simp
qed

lemma beforeRun_inv:
  "beforeRun calls c = Some c' \<Longrightarrow>
   \<not> lh_running c \<Longrightarrow> (\<forall>cmd. lh_cmd c = Some cmd \<longrightarrow> ec_Process cmd = None) \<Longrightarrow>
   \<not> lh_running c' \<and> (\<forall>cmd. lh_cmd c' = Some cmd \<longrightarrow> ec_Process cmd = None)"
proof (induction calls arbitrary: c)
  case Nil
  then show ?case by simp
next
  case (Cons call calls)
  show ?case
  proof (cases call)
    case (CallConnect current)
    let ?c = "fst (LocalhostClient_Connect current c)"
    have "lh_running ?c = lh_running c" "lh_cmd ?c = lh_cmd c"
      by (cases current; simp add: LocalhostClient_Connect_def)+
    then show ?thesis using Cons.IH[of ?c] Cons.prems CallConnect by simp
  next
    case (CallRun p task)
    obtain c1 r where run: "LocalhostClient_Run p c task = (c1, r)"
      by (cases "LocalhostClient_Run p c task")
    with Cons.prems(1) CallRun obtain err where r: "r = Some err" and rest: "beforeRun calls c1 = Some c'"
      by (cases r) auto
    from Run_failed_inv[OF run[unfolded r] Cons.prems(3)] Cons.prems(2)
    show ?thesis using Cons.IH[OF rest] by simp
  next
    case (CallWait p)
    have "LocalhostClient_Wait p c = Ok (c, Some (ErrorString ''Trying to wait on stopped command. ''))"
      using Cons.prems(2) by (simp add: LocalhostClient_Wait_def)
    then show ?thesis using Cons.IH[of c] Cons.prems CallWait by simp
  next
    case CallClose
    then show ?thesis using Cons.IH[of c] Cons.prems by simp
  qed
qed

section \<open>Evaluation on the concrete inputs\<close>

lemma ex_serial_tasks:
  "createTasks ex_world ex_app ex_serial ex_clients [] =
     Ok [\<lparr>t_Run = ''uptime'', t_Input = None,
          t_Clients = [SSH (ex_ssh ''u@a'' ''u'' ''a:22'' 1), SSH (ex_ssh ''u@b'' ''u'' ''b:22'' 2)],
          t_TTY = True\<rparr>,
         \<lparr>t_Run = ''uptime'', t_Input = None,
          t_Clients = [SSH (ex_ssh ''u@c'' ''u'' ''c:22'' 3)], t_TTY = True\<rparr>]"
  by (simp add: createTasks_def ex_world_def ex_app_def ex_serial_def ex_clients_def
      scriptTasks_def localTasks_def remoteTasks_def fanOut_def debugStdin_def
      serialLoop_step serialLoop_stop slice_def)

lemma ex_serial_single:
  "serial = 5 \<or> serial = 0 \<Longrightarrow>
   createTasks ex_world ex_app (ex_serial\<lparr>cmd_Serial := serial\<rparr>) ex_clients [] =
     Ok [\<lparr>t_Run = ''uptime'', t_Input = None, t_Clients = ex_clients, t_TTY = True\<rparr>]"
  by (auto simp: createTasks_def ex_world_def ex_app_def ex_serial_def ex_clients_def
      scriptTasks_def localTasks_def remoteTasks_def fanOut_def debugStdin_def
      serialLoop_step serialLoop_stop slice_def)

lemma ex_once_tasks:
  "createTasks ex_world ex_app ex_once ex_clients [] =
     Ok [\<lparr>t_Run = RemoteTarCommand ''/tmp'', t_Input = Some (TarStream ''/work'' ''dist'' []),
          t_Clients = [SSH (ex_ssh ''u@a'' ''u'' ''a:22'' 1)], t_TTY = False\<rparr>,
         \<lparr>t_Run = ''uptime'', t_Input = None,
          t_Clients = [SSH (ex_ssh ''u@a'' ''u'' ''a:22'' 1)], t_TTY = True\<rparr>,
         \<lparr>t_Run = ''date'', t_Input = None,
          t_Clients = [SSH (ex_ssh ''u@a'' ''u'' ''a:22'' 1)], t_TTY = True\<rparr>]"
  by (simp add: createTasks_def ex_world_def ex_app_def ex_once_def ex_clients_def
      ResolveLocalPath_def NewTarStreamReader_def
      scriptTasks_def localTasks_def remoteTasks_def fanOut_def debugStdin_def)

lemma ex_itoa_15: "itoa 15 = ''15''"
  by (simp add: itoa.simps)

lemma ex_main:
  "main ex_cli ex_env ex_world (\<lambda>task. TaskReturned None) ex_arrival =
     ([\<lparr>t_Run = RemoteTarCommand ''/tmp'', t_Input = Some (TarStream ''/work'' ''dist'' []),
          t_Clients = [SSH (ex_ssh ''u@b'' ''u'' ''b:22'' 2)],
          t_TTY = False\<rparr>,
         \<lparr>t_Run = ''uptime'', t_Input = None,
          t_Clients = [SSH (ex_ssh ''u@b'' ''u'' ''b:22'' 2)],
          t_TTY = True\<rparr>,
         \<lparr>t_Run = ''date'', t_Input = None,
          t_Clients = [SSH (ex_ssh ''u@b'' ''u'' ''b:22'' 2)],
          t_TTY = True\<rparr>], Exited 0)"
  by (simp add: main_def ex_cli_def ex_conf_def parseArgs_def onlyFilter_def exceptFilter_def
      Stackup_Run_def connectBastion_def networkHost_def NewSSHClient_def parseHost_def
      stripSchema_def hostAfterAt_def userBeforeAt_def LastIndex_def Contains_def
      Connect_def ConnectWith_def Colors_def ex_env_def ex_arrival_def ex_ssh_def
      createTasks_def ex_world_def ex_once_def ResolveLocalPath_def NewTarStreamReader_def
      scriptTasks_def localTasks_def remoteTasks_def fanOut_def debugStdin_def Let_def
      upt_rec numeral_eq_Suc)

section \<open>The claims\<close>

text \<open>
  Claim C1 (reap phase, exit status 15).  The specification says that an SSH exit error
  with status 15 is logged with the prefix and that the executor then continues.  In
  \<open>clientsFinish\<close> the test \<open>e.ExitStatus() != 15\<close> only keeps status 15 out of the branch
  that exits with the remote status: the goroutine goes on to the common tail, writes
  the prefixed message and calls \<open>os.Exit(1)\<close>.  For a task with one client whose \<open>Wait\<close>
  returns the exit error 15, the one line is written and the only way the phase ends is
  the exit of the process with status 1 (not 15, and not a return).
\<close>

theorem status_15_exits_with_1:
  "clientFinish ex_render ex_env True 9 (SSH (ex_ssh ''u@a'' ''u'' ''a:22'' 1)) (Some (ExitError 15)) =
     ([CHR 0x1B # ''[33mu@a:22 | '' @ CHR 0x1B # ''[0mProcess exited with status 15'' @ [CHR 0x0A]],
      Exits 1) \<and>
   clientsFinish ex_render ex_env ex_run_task True 9 [Some (ExitError 15)] = [Exits 1]"
  by (simp add: clientsFinish_def clientFinish_def formatClientPrefix_def SSHClient_Prefix_def
      ex_render_def ex_env_def ex_ssh_def ex_run_task_def Colors_def ex_itoa_15)

text \<open>
  Claim C2 (serial batches).  For a command that is not \<open>once\<close>, run on at least one
  client: the tasks of a successful \<open>createTasks\<close> are the groups of the uploads, of the
  script, the local task and the group of the remote command, in this order, and every
  group built for an upload, the script or the remote command satisfies
  \<open>serialBatches\<close>: with \<open>serial = N > 0\<close> it has \<open>\<lceil>n / N\<rceil>\<close> tasks whose client lists are
  consecutive non-empty slices of at most \<open>N\<close> clients that concatenate to the client
  list, and with \<open>serial \<le> 0\<close> or \<open>serial \<ge> n\<close> it is a single task bound to all clients.
\<close>

theorem createTasks_serial_batches:
  assumes "createTasks w app cmd clients env = Ok tasks"
    and "\<not> cmd_Once cmd" and "clients \<noteq> []"
  shows "\<exists>ups scr loc rem.
           tasks = concat ups @ scr @ loc @ rem \<and>
           length ups = length (cmd_Upload cmd) \<and> (\<forall>g\<in>set ups. serialBatches cmd clients g) \<and>
           (if cmd_Script cmd = [] then scr = [] else serialBatches cmd clients scr) \<and>
           (if cmd_Local cmd = [] then loc = [] else (\<exists>t l. loc = [t] \<and> t_Clients t = [Localhost l])) \<and>
           (if cmd_Run cmd = [] then rem = [] else serialBatches cmd clients rem)"
proof (rule createTasks_groups)
  show "\<And>task acc r. fanOut cmd clients task acc = Ok r \<Longrightarrow>
          \<exists>g. r = acc @ g \<and> serialBatches cmd clients g"
    using assms(2,3) by (rule fanOut_serialBatches)
  show "createTasks w app cmd clients env = Ok tasks" by (rule assms(1))
qed

text \<open>
  The theorem at three clients and \<open>serial = 2\<close>: two tasks, bound to the first two
  clients and to the third; and at \<open>serial = 5\<close> and \<open>serial = 0\<close>: one task, bound to the
  three clients.
\<close>

theorem createTasks_serial_batches_witness:
  "createTasks ex_world ex_app ex_serial ex_clients [] =
     Ok [\<lparr>t_Run = ''uptime'', t_Input = None,
          t_Clients = [SSH (ex_ssh ''u@a'' ''u'' ''a:22'' 1), SSH (ex_ssh ''u@b'' ''u'' ''b:22'' 2)],
          t_TTY = True\<rparr>,
         \<lparr>t_Run = ''uptime'', t_Input = None,
          t_Clients = [SSH (ex_ssh ''u@c'' ''u'' ''c:22'' 3)], t_TTY = True\<rparr>] \<and>
   \<not> cmd_Once ex_serial \<and> ex_clients \<noteq> [] \<and>
   serialBatches ex_serial ex_clients
     [\<lparr>t_Run = ''uptime'', t_Input = None,
       t_Clients = [SSH (ex_ssh ''u@a'' ''u'' ''a:22'' 1), SSH (ex_ssh ''u@b'' ''u'' ''b:22'' 2)],
       t_TTY = True\<rparr>,
      \<lparr>t_Run = ''uptime'', t_Input = None,
       t_Clients = [SSH (ex_ssh ''u@c'' ''u'' ''c:22'' 3)], t_TTY = True\<rparr>] \<and>
   createTasks ex_world ex_app (ex_serial\<lparr>cmd_Serial := 5\<rparr>) ex_clients [] =
     Ok [\<lparr>t_Run = ''uptime'', t_Input = None, t_Clients = ex_clients, t_TTY = True\<rparr>] \<and>
   serialBatches (ex_serial\<lparr>cmd_Serial := 5\<rparr>) ex_clients
     [\<lparr>t_Run = ''uptime'', t_Input = None, t_Clients = ex_clients, t_TTY = True\<rparr>] \<and>
   createTasks ex_world ex_app (ex_serial\<lparr>cmd_Serial := 0\<rparr>) ex_clients [] =
     Ok [\<lparr>t_Run = ''uptime'', t_Input = None, t_Clients = ex_clients, t_TTY = True\<rparr>] \<and>
   serialBatches (ex_serial\<lparr>cmd_Serial := 0\<rparr>) ex_clients
     [\<lparr>t_Run = ''uptime'', t_Input = None, t_Clients = ex_clients, t_TTY = True\<rparr>]"
proof -
  have h2: "\<not> cmd_Once ex_serial" "\<not> cmd_Once (ex_serial\<lparr>cmd_Serial := serial\<rparr>)" for serial
    by (simp_all add: ex_serial_def)
  have h3: "ex_clients \<noteq> []" by (simp add: ex_clients_def)
  have only_remote: "serialBatches cmd ex_clients tasks"
    if "cmd_Upload cmd = []" "cmd_Script cmd = []" "cmd_Local cmd = []" "cmd_Run cmd \<noteq> []"
      and "\<exists>ups scr loc rem.
          tasks = concat ups @ scr @ loc @ rem \<and>
          length ups = length (cmd_Upload cmd) \<and>
          (\<forall>g\<in>set ups. serialBatches cmd ex_clients g) \<and>
          (if cmd_Script cmd = [] then scr = [] else serialBatches cmd ex_clients scr) \<and>
          (if cmd_Local cmd = [] then loc = [] else (\<exists>t l. loc = [t] \<and> t_Clients t = [Localhost l])) \<and>
          (if cmd_Run cmd = [] then rem = [] else serialBatches cmd ex_clients rem)"
    for cmd tasks
    using that by auto
  have f: "cmd_Upload ex_serial = []" "cmd_Script ex_serial = []" "cmd_Local ex_serial = []"
    "cmd_Run ex_serial \<noteq> []"
    "cmd_Upload (ex_serial\<lparr>cmd_Serial := serial\<rparr>) = []"
    "cmd_Script (ex_serial\<lparr>cmd_Serial := serial\<rparr>) = []"
    "cmd_Local (ex_serial\<lparr>cmd_Serial := serial\<rparr>) = []"
    "cmd_Run (ex_serial\<lparr>cmd_Serial := serial\<rparr>) \<noteq> []" for serial
    by (simp_all add: ex_serial_def)
  have a: "serialBatches ex_serial ex_clients
     [\<lparr>t_Run = ''uptime'', t_Input = None,
       t_Clients = [SSH (ex_ssh ''u@a'' ''u'' ''a:22'' 1), SSH (ex_ssh ''u@b'' ''u'' ''b:22'' 2)],
       t_TTY = True\<rparr>,
      \<lparr>t_Run = ''uptime'', t_Input = None,
       t_Clients = [SSH (ex_ssh ''u@c'' ''u'' ''c:22'' 3)], t_TTY = True\<rparr>]"
    using createTasks_serial_batches[OF ex_serial_tasks h2(1) h3] by (intro only_remote f)
  have b: "serialBatches (ex_serial\<lparr>cmd_Serial := 5\<rparr>) ex_clients
     [\<lparr>t_Run = ''uptime'', t_Input = None, t_Clients = ex_clients, t_TTY = True\<rparr>]"
    using createTasks_serial_batches[OF ex_serial_single h2(2) h3, of 5] by (intro only_remote f) simp
  have c: "serialBatches (ex_serial\<lparr>cmd_Serial := 0\<rparr>) ex_clients
     [\<lparr>t_Run = ''uptime'', t_Input = None, t_Clients = ex_clients, t_TTY = True\<rparr>]"
    using createTasks_serial_batches[OF ex_serial_single h2(2) h3, of 0] by (intro only_remote f) simp
  from ex_serial_tasks h2(1) h3 a b c ex_serial_single[of 5] ex_serial_single[of 0]
  show ?thesis by simp
qed

text \<open>
  Claim C3 (env prelude in every remote command).  The specification says that the
  string started on the session is the env prelude followed by the command body,
  with or without an input stream.  \<open>SSHClient.Run\<close> prepends \<open>c.env\<close> only in the branch
  without input; for a task with an input stream it calls \<open>sess.Start(task.Run)\<close>.  For
  an upload task on a connected client, every call succeeding, the string handed to
  \<open>Start\<close> is the bare untar command, which differs from the prelude followed by it.
\<close>

theorem Run_with_input_starts_without_env:
  "SSHClient_Run ex_sess (ex_ssh ''u@a'' ''u'' ''a:22'' 1) ex_upload_task =
     Ok ((ex_ssh ''u@a'' ''u'' ''a:22'' 1)\<lparr>ssh_sessOpened := True, ssh_running := True\<rparr>,
         Some (t_Run ex_upload_task), None) \<and>
   t_Input ex_upload_task \<noteq> None \<and>
   t_Run ex_upload_task \<noteq> ssh_env (ex_ssh ''u@a'' ''u'' ''a:22'' 1) @ t_Run ex_upload_task"
  by (simp add: SSHClient_Run_def openSession_def startCommand_def ex_sess_def ex_ssh_def
      ex_upload_task_def)

text \<open>
  Claim C4 (host strings), as the code has it.  For a host string that matches no
  alias and has the form \<open>[ssh://][user@]host[:port]\<close> (\<open>h\<close> is the part after the last
  \<open>@\<close>, non-empty and without \<open>@\<close> and \<open>/\<close>; \<open>u\<close> is the user, which does not itself begin
  with \<open>ssh://\<close>; when there is no user the current user is known): the client gets the
  user \<open>u\<close>, or the current user when there is none, the address \<open>h\<close>, with \<open>:22\<close> appended
  when \<open>h\<close> holds no colon, and the env prelude extended with \<open>export SUP_HOST="raw";\<close>
  where \<open>raw\<close> is the host string as it was given, schema and user included.
\<close>

theorem NewSSHClient_parsed:
  assumes noalias: "find (\<lambda>sshHost. raw \<in> set (sc_Host sshHost)) sshConfigHosts = None"
    and h: "CHR ''@'' \<notin> set h" "CHR ''/'' \<notin> set h" "h \<noteq> []"
    and u: "\<not> HasPrefix u ''ssh://''" "u = [] \<longrightarrow> e_userCurrent e = Inr cu"
    and raw: "raw = (if u = [] then h else u @ ''@'' @ h) \<or>
              raw = ''ssh://'' @ (if u = [] then h else u @ ''@'' @ h)"
  shows "NewSSHClient e raw env i sshConfigHosts =
           (\<lparr>ssh_conn = False,
             ssh_user = (if u = [] then cu else u),
             ssh_host = (if CHR '':'' \<in> set h then h else h @ '':22''),
             ssh_connOpened = False, ssh_sessOpened = False, ssh_running = False,
             ssh_env = env @ ''export SUP_HOST='' @ [CHR 0x22] @ raw @ [CHR 0x22] @ '';'',
             ssh_color = Colors e ! (i mod length (Colors e)),
             ssh_signer = None\<rparr>, None)"
proof -
  let ?s = "if u = [] then h else u @ ''@'' @ h"
  have sne: "?s \<noteq> []" using h(3) by simp
  have strip: "stripSchema raw = ?s"
    using raw stripSchema_plain[OF user_host_no_schema[OF h(1,2) u(1)]] stripSchema_schema[OF sne]
    by presburger
  show ?thesis
  proof (cases "u = []")
    case True
    then show ?thesis
      using noalias strip split_no_at[OF h(1)] h u(2)
      by (simp add: NewSSHClient_def parseHost_def Contains_def)
  next
    case False
    then show ?thesis
      using noalias strip split_at[OF h(1), of u] h
      by (simp add: NewSSHClient_def parseHost_def Contains_def)
  qed
qed

text \<open>
  The theorem at \<open>ssh://user@h:22\<close>, at \<open>user@h\<close> and at \<open>h\<close>: the first two give the same
  user and address, and different preludes.
\<close>

theorem NewSSHClient_parsed_witness:
  "NewSSHClient ex_env ''ssh://user@h:22'' ''export A=1;'' 1 [] =
     (\<lparr>ssh_conn = False, ssh_user = ''user'', ssh_host = ''h:22'',
       ssh_connOpened = False, ssh_sessOpened = False, ssh_running = False,
       ssh_env = ''export A=1;export SUP_HOST='' @ [CHR 0x22] @ ''ssh://user@h:22'' @ [CHR 0x22] @ '';'',
       ssh_color = CHR 0x1B # ''[33m'', ssh_signer = None\<rparr>, None) \<and>
   NewSSHClient ex_env ''user@h'' ''export A=1;'' 1 [] =
     (\<lparr>ssh_conn = False, ssh_user = ''user'', ssh_host = ''h:22'',
       ssh_connOpened = False, ssh_sessOpened = False, ssh_running = False,
       ssh_env = ''export A=1;export SUP_HOST='' @ [CHR 0x22] @ ''user@h'' @ [CHR 0x22] @ '';'',
       ssh_color = CHR 0x1B # ''[33m'', ssh_signer = None\<rparr>, None) \<and>
   NewSSHClient ex_env ''h'' ''export A=1;'' 1 [] =
     (\<lparr>ssh_conn = False, ssh_user = ''deploy'', ssh_host = ''h:22'',
       ssh_connOpened = False, ssh_sessOpened = False, ssh_running = False,
       ssh_env = ''export A=1;export SUP_HOST='' @ [CHR 0x22] @ ''h'' @ [CHR 0x22] @ '';'',
       ssh_color = CHR 0x1B # ''[33m'', ssh_signer = None\<rparr>, None)"
proof -
  have na: "\<And>raw. find (\<lambda>sshHost. raw \<in> set (sc_Host sshHost)) [] = None" by simp
  have c: "Colors ex_env ! (1 mod length (Colors ex_env)) = CHR 0x1B # ''[33m''"
    by (simp add: Colors_def ex_env_def)
  have u: "\<not> HasPrefix ''user'' ''ssh://''" "\<not> HasPrefix [] ''ssh://''"
    by (simp_all add: HasPrefix_def)
  have cu: "e_userCurrent ex_env = Inr ''deploy''" by (simp add: ex_env_def)
  have a: "NewSSHClient ex_env ''ssh://user@h:22'' ''export A=1;'' 1 [] =
     (\<lparr>ssh_conn = False, ssh_user = ''user'', ssh_host = ''h:22'',
       ssh_connOpened = False, ssh_sessOpened = False, ssh_running = False,
       ssh_env = ''export A=1;export SUP_HOST='' @ [CHR 0x22] @ ''ssh://user@h:22'' @ [CHR 0x22] @ '';'',
       ssh_color = CHR 0x1B # ''[33m'', ssh_signer = None\<rparr>, None)"
    using NewSSHClient_parsed[OF na, of "''h:22''" "''user''" ex_env "''deploy''"
        "''ssh://user@h:22''" "''export A=1;''" 1] u c
    by simp
  have b: "NewSSHClient ex_env ''user@h'' ''export A=1;'' 1 [] =
     (\<lparr>ssh_conn = False, ssh_user = ''user'', ssh_host = ''h:22'',
       ssh_connOpened = False, ssh_sessOpened = False, ssh_running = False,
       ssh_env = ''export A=1;export SUP_HOST='' @ [CHR 0x22] @ ''user@h'' @ [CHR 0x22] @ '';'',
       ssh_color = CHR 0x1B # ''[33m'', ssh_signer = None\<rparr>, None)"
    using NewSSHClient_parsed[OF na, of "''h''" "''user''" ex_env "''deploy''"
        "''user@h''" "''export A=1;''" 1] u c
    by simp
  have d: "NewSSHClient ex_env ''h'' ''export A=1;'' 1 [] =
     (\<lparr>ssh_conn = False, ssh_user = ''deploy'', ssh_host = ''h:22'',
       ssh_connOpened = False, ssh_sessOpened = False, ssh_running = False,
       ssh_env = ''export A=1;export SUP_HOST='' @ [CHR 0x22] @ ''h'' @ [CHR 0x22] @ '';'',
       ssh_color = CHR 0x1B # ''[33m'', ssh_signer = None\<rparr>, None)"
    using NewSSHClient_parsed[OF na, of "''h''" "[]" ex_env "''deploy''"
        "''h''" "''export A=1;''" 1] u c cu
    by simp
  from a b d show ?thesis by blast
qed

text \<open>
  Claim C4 as stated fails: \<open>ssh://user@h:22\<close> and \<open>user@h\<close> do not give identical
  clients, since \<open>SUP_HOST\<close> carries the host string as given.
\<close>

theorem schema_and_plain_host_differ_in_env:
  "NewSSHClient ex_env ''ssh://user@h:22'' [] 1 [] \<noteq> NewSSHClient ex_env ''user@h'' [] 1 []"
proof -
  have a: "ssh_env (fst (NewSSHClient ex_env ''ssh://user@h:22'' [] 1 [])) =
           ''export SUP_HOST='' @ [CHR 0x22] @ ''ssh://user@h:22'' @ [CHR 0x22] @ '';''"
    by (simp add: NewSSHClient_def parseHost_def stripSchema_def hostAfterAt_def userBeforeAt_def
        LastIndex_def Contains_def Let_def)
  have b: "ssh_env (fst (NewSSHClient ex_env ''user@h'' [] 1 [])) =
           ''export SUP_HOST='' @ [CHR 0x22] @ ''user@h'' @ [CHR 0x22] @ '';''"
    by (simp add: NewSSHClient_def parseHost_def stripSchema_def hostAfterAt_def userBeforeAt_def
        LastIndex_def Contains_def Let_def)
  show ?thesis
  proof
    assume "NewSSHClient ex_env ''ssh://user@h:22'' [] 1 [] = NewSSHClient ex_env ''user@h'' [] 1 []"
    then have "ssh_env (fst (NewSSHClient ex_env ''ssh://user@h:22'' [] 1 [])) =
               ssh_env (fst (NewSSHClient ex_env ''user@h'' [] 1 []))"
      by simp
    then show False unfolding a b by simp
  qed
qed

text \<open>
  Claim C5 (\<open>once\<close> overrides \<open>serial\<close>).  For a \<open>once\<close> command, whatever its \<open>serial\<close>: the
  tasks of a successful \<open>createTasks\<close> are one group for each upload, the group of the
  script, the local task and the group of the remote command, and each group of an
  upload, of the script and of the remote command is exactly one task, bound to
  exactly the first client of the client list.
\<close>

theorem createTasks_once_first_client:
  assumes "createTasks w app cmd clients env = Ok tasks" and "cmd_Once cmd"
  shows "\<exists>ups scr loc rem.
           tasks = concat ups @ scr @ loc @ rem \<and>
           length ups = length (cmd_Upload cmd) \<and> (\<forall>g\<in>set ups. onceTask clients g) \<and>
           (if cmd_Script cmd = [] then scr = [] else onceTask clients scr) \<and>
           (if cmd_Local cmd = [] then loc = [] else (\<exists>t l. loc = [t] \<and> t_Clients t = [Localhost l])) \<and>
           (if cmd_Run cmd = [] then rem = [] else onceTask clients rem)"
proof (rule createTasks_groups)
  show "\<And>task acc r. fanOut cmd clients task acc = Ok r \<Longrightarrow> \<exists>g. r = acc @ g \<and> onceTask clients g"
    unfolding onceTask_def using assms(2) by (rule fanOut_once)
  show "createTasks w app cmd clients env = Ok tasks" by (rule assms(1))
qed

text \<open>
  The theorem at a \<open>once\<close> command with \<open>serial = 2\<close>, one upload, a script and a remote
  command, on three clients: three tasks, each bound to the first client.
\<close>

theorem createTasks_once_first_client_witness:
  "createTasks ex_world ex_app ex_once ex_clients [] =
     Ok [\<lparr>t_Run = RemoteTarCommand ''/tmp'', t_Input = Some (TarStream ''/work'' ''dist'' []),
          t_Clients = [SSH (ex_ssh ''u@a'' ''u'' ''a:22'' 1)], t_TTY = False\<rparr>,
         \<lparr>t_Run = ''uptime'', t_Input = None,
          t_Clients = [SSH (ex_ssh ''u@a'' ''u'' ''a:22'' 1)], t_TTY = True\<rparr>,
         \<lparr>t_Run = ''date'', t_Input = None,
          t_Clients = [SSH (ex_ssh ''u@a'' ''u'' ''a:22'' 1)], t_TTY = True\<rparr>] \<and>
   cmd_Once ex_once \<and>
   (\<exists>ups scr loc rem.
      [\<lparr>t_Run = RemoteTarCommand ''/tmp'', t_Input = Some (TarStream ''/work'' ''dist'' []),
          t_Clients = [SSH (ex_ssh ''u@a'' ''u'' ''a:22'' 1)], t_TTY = False\<rparr>,
         \<lparr>t_Run = ''uptime'', t_Input = None,
          t_Clients = [SSH (ex_ssh ''u@a'' ''u'' ''a:22'' 1)], t_TTY = True\<rparr>,
         \<lparr>t_Run = ''date'', t_Input = None,
          t_Clients = [SSH (ex_ssh ''u@a'' ''u'' ''a:22'' 1)], t_TTY = True\<rparr>] = concat ups @ scr @ loc @ rem \<and>
      length ups = length (cmd_Upload ex_once) \<and> (\<forall>g\<in>set ups. onceTask ex_clients g) \<and>
      (if cmd_Script ex_once = [] then scr = [] else onceTask ex_clients scr) \<and>
      (if cmd_Local ex_once = [] then loc = [] else (\<exists>t l. loc = [t] \<and> t_Clients t = [Localhost l])) \<and>
      (if cmd_Run ex_once = [] then rem = [] else onceTask ex_clients rem))"
proof -
  have h2: "cmd_Once ex_once" by (simp add: ex_once_def)
  from createTasks_once_first_client[OF ex_once_tasks h2] ex_once_tasks h2
  show ?thesis by blast
qed

text \<open>
  Claim C6 (prefix width).  The specification says that every prefix is padded on the
  left to the width \<open>maxLen\<close>.  \<open>Task.do\<close> pads only when \<open>len(prefix) < maxLen\<close>, where
  \<open>prefix\<close> includes the colour escapes, while \<open>maxLen\<close> and the amount of padding count
  the uncoloured text.  For two connected clients whose uncoloured prefixes are 9 and
  14 bytes wide, \<open>maxLen\<close> is 14 and the prefix of the first client is left without any
  padding, 9 wide.
\<close>

theorem prefix_left_unpadded:
  "maxPrefixLen ex_env [SSH (ex_ssh ''u@a'' ''u'' ''a:22'' 1), SSH (ex_ssh ''u@bbbbbb'' ''u'' ''bbbbbb:22'' 2)] = 14 \<and>
   snd (Prefix ex_env (SSH (ex_ssh ''u@a'' ''u'' ''a:22'' 1))) = 9 \<and>
   doPrefix ex_env True 14 (SSH (ex_ssh ''u@a'' ''u'' ''a:22'' 1)) =
     Ok (CHR 0x1B # ''[33m'' @ ''u@a:22 | '' @ CHR 0x1B # ''[0m'')"
  by (simp add: maxPrefixLen_def doPrefix_def SSHClient_Prefix_def ex_env_def ex_ssh_def Colors_def)

text \<open>
  Claim C7 (every task has a client).  Whatever the order in which the connecting
  goroutines deliver: every task produced in a run of \<open>main\<close> is bound to at least one
  client, and building the tasks does not panic (so \<open>clients[0]\<close> is never evaluated on
  an empty list); \<open>parseArgs\<close> only returns a network with at least one host; and for a
  known network without hosts \<open>parseArgs\<close> returns the error "No hosts defined for a
  given network" and \<open>main\<close> exits with status 1 without having produced a task.
\<close>

theorem main_tasks_have_clients:
  assumes "\<forall>hosts. mset (arrival hosts) = mset [0..<length hosts]"
  shows "(\<forall>t\<in>set (fst (main cli e w taskDo arrival)). t_Clients t \<noteq> []) \<and>
         (\<forall>p. snd (main cli e w taskDo arrival) \<noteq> Panicked p) \<and>
         (\<forall>conf network commands.
            parseArgs conf (cli_args cli) (cli_inventory cli) = Inr (network, commands) \<longrightarrow>
            net_Hosts network \<noteq> []) \<and>
         (\<not> cli_showHelp cli0 \<and> \<not> cli_showVersion cli0 \<and> cli_conf cli0 = Inr conf0 \<and>
          cli_args cli0 \<noteq> [] \<and> sf_Networks conf0 (cli_args cli0 ! 0) = Some nw \<and>
          cli_inventory cli0 nw = Inr hosts \<and> net_Hosts nw @ hosts = [] \<longrightarrow>
            parseArgs conf0 (cli_args cli0) (cli_inventory cli0) = Inl ErrNetworkNoHosts \<and>
            main cli0 e w taskDo arrival = ([], Exited 1))"
proof -
  have a: "(\<forall>t\<in>set (fst (main cli e w taskDo arrival)). t_Clients t \<noteq> []) \<and>
           (\<forall>p. snd (main cli e w taskDo arrival) \<noteq> Panicked p)"
    using main_clients[OF assms, of cli e w taskDo] by blast
  have b: "\<forall>conf network commands.
            parseArgs conf (cli_args cli) (cli_inventory cli) = Inr (network, commands) \<longrightarrow>
            net_Hosts network \<noteq> []"
    using parseArgs_hosts by blast
  have c: "\<not> cli_showHelp cli0 \<and> \<not> cli_showVersion cli0 \<and> cli_conf cli0 = Inr conf0 \<and>
          cli_args cli0 \<noteq> [] \<and> sf_Networks conf0 (cli_args cli0 ! 0) = Some nw \<and>
          cli_inventory cli0 nw = Inr hosts \<and> net_Hosts nw @ hosts = [] \<longrightarrow>
            parseArgs conf0 (cli_args cli0) (cli_inventory cli0) = Inl ErrNetworkNoHosts \<and>
            main cli0 e w taskDo arrival = ([], Exited 1)"
    using parseArgs_no_hosts[of "cli_args cli0" conf0 nw "cli_inventory cli0" hosts]
      main_parse_error[of cli0 conf0 ErrNetworkNoHosts e w taskDo arrival]
    by blast
  from a b c show ?thesis by blast
qed

text \<open>
  The theorem at a network of two hosts and a \<open>once\<close> command with an upload, a script
  and a remote command, the second host connecting first; and at a network without
  hosts.
\<close>

theorem main_tasks_have_clients_witness:
  "(\<forall>hosts. mset (ex_arrival hosts) = mset [0..<length hosts]) \<and>
   fst (main ex_cli ex_env ex_world (\<lambda>task. TaskReturned None) ex_arrival) =
     [\<lparr>t_Run = RemoteTarCommand ''/tmp'', t_Input = Some (TarStream ''/work'' ''dist'' []),
       t_Clients = [SSH (ex_ssh ''u@b'' ''u'' ''b:22'' 2)], t_TTY = False\<rparr>,
      \<lparr>t_Run = ''uptime'', t_Input = None,
       t_Clients = [SSH (ex_ssh ''u@b'' ''u'' ''b:22'' 2)], t_TTY = True\<rparr>,
      \<lparr>t_Run = ''date'', t_Input = None,
       t_Clients = [SSH (ex_ssh ''u@b'' ''u'' ''b:22'' 2)], t_TTY = True\<rparr>] \<and>
   list_all (\<lambda>t. t_Clients t \<noteq> [])
     (fst (main ex_cli ex_env ex_world (\<lambda>task. TaskReturned None) ex_arrival)) \<and>
   (\<forall>p. snd (main ex_cli ex_env ex_world (\<lambda>task. TaskReturned None) ex_arrival) \<noteq> Panicked p) \<and>
   parseArgs ex_conf (cli_args ex_cli) (cli_inventory ex_cli) =
     Inr (\<lparr>net_Hosts = [''u@a'', ''u@b''], net_Bastion = []\<rparr>, [ex_once\<lparr>cmd_Name := ''build''\<rparr>]) \<and>
   net_Hosts \<lparr>net_Hosts = [''u@a'', ''u@b''], net_Bastion = []\<rparr> \<noteq> [] \<and>
   sf_Networks ex_conf (cli_args (ex_cli\<lparr>cli_args := [''empty'', ''build'']\<rparr>) ! 0) =
     Some \<lparr>net_Hosts = [], net_Bastion = []\<rparr> \<and>
   parseArgs ex_conf (cli_args (ex_cli\<lparr>cli_args := [''empty'', ''build'']\<rparr>))
     (cli_inventory (ex_cli\<lparr>cli_args := [''empty'', ''build'']\<rparr>)) = Inl ErrNetworkNoHosts \<and>
   main (ex_cli\<lparr>cli_args := [''empty'', ''build'']\<rparr>) ex_env ex_world (\<lambda>task. TaskReturned None) ex_arrival =
     ([], Exited 1)"
proof -
  let ?cli0 = "ex_cli\<lparr>cli_args := [''empty'', ''build'']\<rparr>"
  let ?nw = "\<lparr>net_Hosts = [], net_Bastion = []\<rparr>"
  have arr: "\<forall>hosts. mset (ex_arrival hosts) = mset [0..<length hosts]"
    by (simp add: ex_arrival_def)
  have pa: "parseArgs ex_conf (cli_args ex_cli) (cli_inventory ex_cli) =
     Inr (\<lparr>net_Hosts = [''u@a'', ''u@b''], net_Bastion = []\<rparr>, [ex_once\<lparr>cmd_Name := ''build''\<rparr>])"
    by (simp add: parseArgs_def ex_cli_def ex_conf_def)
  have z: "\<not> cli_showHelp ?cli0" "\<not> cli_showVersion ?cli0" "cli_conf ?cli0 = Inr ex_conf"
    "cli_args ?cli0 \<noteq> []" "sf_Networks ex_conf (cli_args ?cli0 ! 0) = Some ?nw"
    "cli_inventory ?cli0 ?nw = Inr []" "net_Hosts ?nw @ [] = []"
    by (simp_all add: ex_cli_def ex_conf_def)
  note inst = main_tasks_have_clients[OF arr, of ex_cli ex_env ex_world "\<lambda>task. TaskReturned None"
      ?cli0 ex_conf ?nw "[]"]
  from inst z have zero:
    "parseArgs ex_conf (cli_args ?cli0) (cli_inventory ?cli0) = Inl ErrNetworkNoHosts"
    "main ?cli0 ex_env ex_world (\<lambda>task. TaskReturned None) ex_arrival = ([], Exited 1)"
    by blast+
  from inst have all:
    "list_all (\<lambda>t. t_Clients t \<noteq> [])
       (fst (main ex_cli ex_env ex_world (\<lambda>task. TaskReturned None) ex_arrival))"
    "\<forall>p. snd (main ex_cli ex_env ex_world (\<lambda>task. TaskReturned None) ex_arrival) \<noteq> Panicked p"
    unfolding list_all_iff by blast+
  have hosts: "net_Hosts \<lparr>net_Hosts = [''u@a'', ''u@b''], net_Bastion = []\<rparr> \<noteq> []" by simp
  have m: "fst (main ex_cli ex_env ex_world (\<lambda>task. TaskReturned None) ex_arrival) =
     [\<lparr>t_Run = RemoteTarCommand ''/tmp'', t_Input = Some (TarStream ''/work'' ''dist'' []),
       t_Clients = [SSH (ex_ssh ''u@b'' ''u'' ''b:22'' 2)], t_TTY = False\<rparr>,
      \<lparr>t_Run = ''uptime'', t_Input = None,
       t_Clients = [SSH (ex_ssh ''u@b'' ''u'' ''b:22'' 2)], t_TTY = True\<rparr>,
      \<lparr>t_Run = ''date'', t_Input = None,
       t_Clients = [SSH (ex_ssh ''u@b'' ''u'' ''b:22'' 2)], t_TTY = True\<rparr>]"
    by (simp only: ex_main fst_conv)
  from arr m all pa hosts z(5) zero show ?thesis by blast
qed

text \<open>
  Claim C8 (\<open>Close\<close>), as the code has it.  For a client whose connection is not open
  and that has no open session (as a client that was never connected, or one whose
  \<open>Close\<close> has completed), \<open>Close\<close> returns the error "Trying to close the already closed
  connection" and leaves the client unchanged.  For a client whose connection is open,
  when no session is open or the open session closes without an error, \<open>Close\<close> returns
  the result of closing the connection and clears \<open>connOpened\<close>, \<open>sessOpened\<close> and
  \<open>running\<close>.  A client fresh from \<open>NewSSHClient\<close> is of the first kind, and so is a
  client after such a \<open>Close\<close>: a call of \<open>Close\<close> on it returns the error and changes
  nothing.
\<close>

theorem SSHClient_Close_effect:
  "(\<not> ssh_connOpened c \<and> \<not> ssh_sessOpened c \<longrightarrow>
      SSHClient_Close s c = (c, Some (ErrorString ''Trying to close the already closed connection''))) \<and>
   SSHClient_Close s (fst (NewSSHClient e host env i sshConfigHosts)) =
     (fst (NewSSHClient e host env i sshConfigHosts),
      Some (ErrorString ''Trying to close the already closed connection'')) \<and>
   (ssh_connOpened d \<and> (ssh_sessOpened d \<longrightarrow> se_sessClose s = None) \<longrightarrow>
      snd (SSHClient_Close s d) = se_connClose s \<and>
      \<not> ssh_connOpened (fst (SSHClient_Close s d)) \<and>
      \<not> ssh_sessOpened (fst (SSHClient_Close s d)) \<and>
      \<not> ssh_running (fst (SSHClient_Close s d)) \<and>
      SSHClient_Close s' (fst (SSHClient_Close s d)) =
        (fst (SSHClient_Close s d), Some (ErrorString ''Trying to close the already closed connection'')))"
  using Close_closed[of c s] Close_open[of d s]
    Close_closed[of "fst (SSHClient_Close s d)" s']
    Close_closed[of "fst (NewSSHClient e host env i sshConfigHosts)" s]
    NewSSHClient_flags[of e host env i sshConfigHosts]
  by blast

text \<open>
  The theorem at a client fresh from \<open>NewSSHClient\<close> and at a connected client with an
  open session and a running command.
\<close>

theorem SSHClient_Close_effect_witness:
  "\<not> ssh_connOpened (fst (NewSSHClient ex_env ''u@a'' [] 1 [])) \<and>
   \<not> ssh_sessOpened (fst (NewSSHClient ex_env ''u@a'' [] 1 [])) \<and>
   SSHClient_Close ex_sess (fst (NewSSHClient ex_env ''u@a'' [] 1 [])) =
     (fst (NewSSHClient ex_env ''u@a'' [] 1 []),
      Some (ErrorString ''Trying to close the already closed connection'')) \<and>
   ssh_connOpened ((ex_ssh ''u@a'' ''u'' ''a:22'' 1)\<lparr>ssh_sessOpened := True, ssh_running := True\<rparr>) \<and>
   ssh_sessOpened ((ex_ssh ''u@a'' ''u'' ''a:22'' 1)\<lparr>ssh_sessOpened := True, ssh_running := True\<rparr>) \<and>
   se_sessClose ex_sess = None \<and>
   SSHClient_Close ex_sess ((ex_ssh ''u@a'' ''u'' ''a:22'' 1)\<lparr>ssh_sessOpened := True, ssh_running := True\<rparr>) =
     ((ex_ssh ''u@a'' ''u'' ''a:22'' 1)\<lparr>ssh_connOpened := False\<rparr>, None) \<and>
   SSHClient_Close ex_sess ((ex_ssh ''u@a'' ''u'' ''a:22'' 1)\<lparr>ssh_connOpened := False\<rparr>) =
     ((ex_ssh ''u@a'' ''u'' ''a:22'' 1)\<lparr>ssh_connOpened := False\<rparr>,
      Some (ErrorString ''Trying to close the already closed connection''))"
proof -
  let ?new = "fst (NewSSHClient ex_env ''u@a'' [] 1 [])"
  let ?open = "(ex_ssh ''u@a'' ''u'' ''a:22'' 1)\<lparr>ssh_sessOpened := True, ssh_running := True\<rparr>"
  have f: "\<not> ssh_connOpened ?new" "\<not> ssh_sessOpened ?new"
    by (simp_all add: NewSSHClient_def parseHost_def stripSchema_def hostAfterAt_def userBeforeAt_def
        LastIndex_def Contains_def Let_def)
  have o: "ssh_connOpened ?open" "ssh_sessOpened ?open" "se_sessClose ex_sess = None"
    by (simp_all add: ex_ssh_def ex_sess_def)
  have cl: "SSHClient_Close ex_sess ?open = ((ex_ssh ''u@a'' ''u'' ''a:22'' 1)\<lparr>ssh_connOpened := False\<rparr>, None)"
    by (simp add: SSHClient_Close_def ex_ssh_def ex_sess_def)
  note inst = SSHClient_Close_effect[where c = ?new and s = ex_sess and e = ex_env and host = "''u@a''"
      and env = "[]" and i = 1 and sshConfigHosts = "[]" and d = ?open and s' = ex_sess]
  from inst f have a: "SSHClient_Close ex_sess ?new =
      (?new, Some (ErrorString ''Trying to close the already closed connection''))"
    by blast
  from inst o have "SSHClient_Close ex_sess (fst (SSHClient_Close ex_sess ?open)) =
      (fst (SSHClient_Close ex_sess ?open), Some (ErrorString ''Trying to close the already closed connection''))"
    by blast
  then have b: "SSHClient_Close ex_sess ((ex_ssh ''u@a'' ''u'' ''a:22'' 1)\<lparr>ssh_connOpened := False\<rparr>) =
     ((ex_ssh ''u@a'' ''u'' ''a:22'' 1)\<lparr>ssh_connOpened := False\<rparr>,
      Some (ErrorString ''Trying to close the already closed connection''))"
    unfolding cl by simp
  from f o a cl b show ?thesis by blast
qed

text \<open>
  Claim C8 as stated fails: when the open session does not close cleanly, \<open>Close\<close>
  returns that error at once; the connection stays open and \<open>running\<close> stays set.
\<close>

theorem Close_keeps_connection_when_session_close_fails:
  "SSHClient_Close (ex_sess\<lparr>se_sessClose := Some EOF\<rparr>)
      ((ex_ssh ''u@a'' ''u'' ''a:22'' 1)\<lparr>ssh_sessOpened := True, ssh_running := True\<rparr>) =
     ((ex_ssh ''u@a'' ''u'' ''a:22'' 1)\<lparr>ssh_sessOpened := False, ssh_running := True\<rparr>, Some EOF) \<and>
   ssh_connOpened ((ex_ssh ''u@a'' ''u'' ''a:22'' 1)\<lparr>ssh_sessOpened := True, ssh_running := True\<rparr>) \<and>
   ssh_connOpened ((ex_ssh ''u@a'' ''u'' ''a:22'' 1)\<lparr>ssh_sessOpened := False, ssh_running := True\<rparr>) \<and>
   ssh_running ((ex_ssh ''u@a'' ''u'' ''a:22'' 1)\<lparr>ssh_sessOpened := False, ssh_running := True\<rparr>)"
  by (simp add: SSHClient_Close_def ex_sess_def ex_ssh_def)

text \<open>
  Claim C9 (slash in the host), as the code has it.  For a host string that matches no
  alias and whose part after the schema and after the last \<open>@\<close> holds a slash, the
  goroutine of the host sends the error of the constructor, wrapped with "create new
  ssh client", and has dialled no address.  The error is the \<open>ErrConnect\<close> with the
  reason "unexpected slash in the host URL" (with the user of the host string, or the
  current user when the string names none), unless the string names no user and the
  lookup of the current user fails: then it is the error of that lookup.
\<close>

theorem slash_host_refused_before_dialling:
  assumes "find (\<lambda>sshHost. raw \<in> set (sc_Host sshHost)) sshConfigHosts = None"
    and "Contains (hostAfterAt (stripSchema raw)) CHR ''/''"
  shows "networkHost e bastion raw env i sshConfigHosts =
           (Inl (Wrap (case (if LastIndex (stripSchema raw) CHR ''@'' \<noteq> - 1 \<and>
                                userBeforeAt (stripSchema raw) \<noteq> []
                             then Inr (userBeforeAt (stripSchema raw)) else e_userCurrent e) of
                         Inl lookupError \<Rightarrow> lookupError
                       | Inr u \<Rightarrow> ErrConnect u (hostAfterAt (stripSchema raw))
                                   ''unexpected slash in the host URL'')
                   ''create new ssh client''), [])"
proof -
  have nl: "raw \<noteq> ''localhost''"
  proof
    assume "raw = ''localhost''"
    then have "hostAfterAt (stripSchema raw) = ''localhost''"
      by (simp add: stripSchema_def hostAfterAt_def LastIndex_def)
    with assms(2) show False by (simp add: Contains_def)
  qed
  let ?c = "\<lparr>ssh_conn = False, ssh_user = [], ssh_host = raw,
             ssh_connOpened = False, ssh_sessOpened = False, ssh_running = False,
             ssh_env = env @ ''export SUP_HOST='' @ [CHR 0x22] @ raw @ [CHR 0x22] @ '';'',
             ssh_color = Colors e ! (i mod length (Colors e)), ssh_signer = None\<rparr>"
  have new: "NewSSHClient e raw env i sshConfigHosts = parseHost e ?c raw"
    using assms(1) by (simp add: NewSSHClient_def)
  have "snd (parseHost e ?c raw) =
          Some (case (if LastIndex (stripSchema raw) CHR ''@'' \<noteq> - 1 \<and>
                                userBeforeAt (stripSchema raw) \<noteq> []
                             then Inr (userBeforeAt (stripSchema raw)) else e_userCurrent e) of
                         Inl lookupError \<Rightarrow> lookupError
                       | Inr u \<Rightarrow> ErrConnect u (hostAfterAt (stripSchema raw))
                                   ''unexpected slash in the host URL'')"
    using parseHost_slash[OF assms(2), of e ?c] by simp
  with networkHost_NewSSHClient_error[OF nl] new show ?thesis by simp
qed

text \<open>
  The theorem at \<open>ssh://u@h/path\<close> and at \<open>h/path\<close>.
\<close>

theorem slash_host_refused_before_dialling_witness:
  "find (\<lambda>sshHost. ''ssh://u@h/path'' \<in> set (sc_Host sshHost)) [] = None \<and>
   Contains (hostAfterAt (stripSchema ''ssh://u@h/path'')) CHR ''/'' \<and>
   networkHost ex_env None ''ssh://u@h/path'' [] 1 [] =
     (Inl (Wrap (ErrConnect ''u'' ''h/path'' ''unexpected slash in the host URL'')
             ''create new ssh client''), []) \<and>
   Contains (hostAfterAt (stripSchema ''h/path'')) CHR ''/'' \<and>
   networkHost ex_env None ''h/path'' [] 1 [] =
     (Inl (Wrap (ErrConnect ''deploy'' ''h/path'' ''unexpected slash in the host URL'')
             ''create new ssh client''), [])"
proof -
  have h1: "find (\<lambda>sshHost. ''ssh://u@h/path'' \<in> set (sc_Host sshHost)) [] = None" by simp
  have h2: "Contains (hostAfterAt (stripSchema ''ssh://u@h/path'')) CHR ''/''"
    by (simp add: stripSchema_def hostAfterAt_def LastIndex_def Contains_def)
  have g1: "find (\<lambda>sshHost. ''h/path'' \<in> set (sc_Host sshHost)) [] = None" by simp
  have g2: "Contains (hostAfterAt (stripSchema ''h/path'')) CHR ''/''"
    by (simp add: stripSchema_def hostAfterAt_def LastIndex_def Contains_def)
  have a: "networkHost ex_env None ''ssh://u@h/path'' [] 1 [] =
     (Inl (Wrap (ErrConnect ''u'' ''h/path'' ''unexpected slash in the host URL'')
             ''create new ssh client''), [])"
    using slash_host_refused_before_dialling[OF h1 h2, of ex_env None "[]" 1]
    by (simp add: stripSchema_def hostAfterAt_def userBeforeAt_def LastIndex_def)
  have b: "networkHost ex_env None ''h/path'' [] 1 [] =
     (Inl (Wrap (ErrConnect ''deploy'' ''h/path'' ''unexpected slash in the host URL'')
             ''create new ssh client''), [])"
    using slash_host_refused_before_dialling[OF g1 g2, of ex_env None "[]" 1]
    by (simp add: stripSchema_def hostAfterAt_def userBeforeAt_def LastIndex_def ex_env_def)
  from h1 h2 g2 a b show ?thesis by blast
qed

text \<open>
  Claim C9 as stated fails: for \<open>h/path\<close>, when the current user cannot be determined,
  the error is the one of the lookup and not an \<open>ErrConnect\<close>.
\<close>

theorem slash_host_without_user_lookup:
  "networkHost (ex_env\<lparr>e_userCurrent := Inl (ErrorString ''user: Current requires cgo or $USER set in environment'')\<rparr>)
      None ''h/path'' [] 1 [] =
     (Inl (Wrap (ErrorString ''user: Current requires cgo or $USER set in environment'')
             ''create new ssh client''), [])"
  by (simp add: networkHost_def NewSSHClient_def parseHost_def stripSchema_def hostAfterAt_def
      userBeforeAt_def LastIndex_def Contains_def Let_def ex_env_def)

text \<open>
  Claim C10 (\<open>Signal\<close> before \<open>Run\<close>).  For every client reached from a new
  \<open>LocalhostClient\<close> by calls of \<open>Connect\<close>, \<open>Run\<close>, \<open>Wait\<close> and \<open>Close\<close> among which no \<open>Run\<close> has
  succeeded, \<open>Signal\<close> panics on a nil dereference; it does not return an error.
\<close>

theorem Signal_before_Run_panics:
  assumes "beforeRun calls \<lparr>lh_cmd = None, lh_user = [], lh_running = False, lh_env = env\<rparr> = Some c"
  shows "LocalhostClient_Signal p c sig = Panic NilDereference"
proof -
  have "\<forall>cmd. lh_cmd c = Some cmd \<longrightarrow> ec_Process cmd = None"
    using beforeRun_inv[OF assms] by simp
  then show ?thesis
    by (cases "lh_cmd c") (simp_all add: LocalhostClient_Signal_def)
qed

text \<open>
  The theorem after \<open>Connect\<close>, a \<open>Run\<close> whose \<open>Start\<close> fails, \<open>Wait\<close> and \<open>Close\<close>: the command
  handle is set, its process is not.
\<close>

theorem Signal_before_Run_panics_witness:
  "beforeRun [CallConnect (Inr ''deploy''), CallRun ex_proc_failing ex_run_task, CallWait ex_proc_failing, CallClose]
      \<lparr>lh_cmd = None, lh_user = [], lh_running = False, lh_env = ''export A=1;''\<rparr> =
     Some \<lparr>lh_cmd = Some \<lparr>ec_Args = [''bash'', ''-c'', ''export A=1;uptime''], ec_Process = None\<rparr>,
           lh_user = ''deploy'', lh_running = False, lh_env = ''export A=1;''\<rparr> \<and>
   LocalhostClient_Signal ex_proc_failing
      \<lparr>lh_cmd = Some \<lparr>ec_Args = [''bash'', ''-c'', ''export A=1;uptime''], ec_Process = None\<rparr>,
       lh_user = ''deploy'', lh_running = False, lh_env = ''export A=1;''\<rparr> 2 = Panic NilDereference"
proof -
  have h: "beforeRun [CallConnect (Inr ''deploy''), CallRun ex_proc_failing ex_run_task, CallWait ex_proc_failing, CallClose]
      \<lparr>lh_cmd = None, lh_user = [], lh_running = False, lh_env = ''export A=1;''\<rparr> =
     Some \<lparr>lh_cmd = Some \<lparr>ec_Args = [''bash'', ''-c'', ''export A=1;uptime''], ec_Process = None\<rparr>,
           lh_user = ''deploy'', lh_running = False, lh_env = ''export A=1;''\<rparr>"
    by (simp add: LocalhostClient_Connect_def LocalhostClient_Run_def LocalhostClient_Wait_def
        ex_proc_failing_def ex_run_task_def)
  from Signal_before_Run_panics[OF h] h show ?thesis by blast
qed

end
